theory Spec2Isabelle
  imports Complex_Main "HOL-Library.Sublist"
begin

section \<open>Values shared by the scraper, the converter and the verifier\<close>

text \<open>
  JavaScript numbers are modelled as exact rationals (pixel sizes, scores, progress
  percentages) and as integers where the source rounds. A string is a list of bytes; a
  field that the scraper always writes as a string is a \<open>string\<close>, and the empty string is
  the falsy value that an absent field would also be. An error that is thrown is a value on
  the left of a sum; \<open>exn\<close> is its message.
\<close>

type_synonym exn = string

type_synonym buffer = "char list"

datatype device = Desktop | Tablet | Mobile

datatype metric = ElementCount | TextNodes | Images | Sections | Containers | Headings | Links

record layout =
  x :: rat
  y :: rat
  width :: rat
  height :: rat
  position :: string
  display :: string
  backgroundColor :: string
  border :: string
  borderRadius :: string
  padding_top :: string
  padding_left :: string

record attributes =
  src :: string
  href :: string
  alt :: string
  attr_type :: string
  attr_value :: string
  placeholder :: string

text \<open>
  One captured DOM element, as \<open>mapElement\<close> of the scraper writes it. \<open>counts\<close> holds
  the numeric fields \<open>elementCount\<close>, \<open>textNodes\<close>, ... that an object carries when it is
  the count summary of \<open>extractPageStructure\<close>; a scraped element carries none.
\<close>

datatype element = Element
  (counts: "(metric \<times> nat) list")
  (tagName: string)
  (className: string)
  (textContent: string)
  (innerHTML: string)
  (outerHTML: string)
  (attributes: attributes)
  (layout: "layout option")
  (children: "element list")

definition is_upper :: "char \<Rightarrow> bool" where
  "is_upper c = (65 \<le> (of_char c :: nat) \<and> (of_char c :: nat) \<le> 90)"

definition is_lower :: "char \<Rightarrow> bool" where
  "is_lower c = (97 \<le> (of_char c :: nat) \<and> (of_char c :: nat) \<le> 122)"

definition is_digit :: "char \<Rightarrow> bool" where
  "is_digit c = (48 \<le> (of_char c :: nat) \<and> (of_char c :: nat) \<le> 57)"

definition toLowerCase :: "string \<Rightarrow> string" where
  "toLowerCase s = map (\<lambda>c. if is_upper c then char_of ((of_char c :: nat) + 32) else c) s"

definition toUpperCase :: "string \<Rightarrow> string" where
  "toUpperCase s = map (\<lambda>c. if is_lower c then char_of ((of_char c :: nat) - 32) else c) s"

definition is_space :: "char \<Rightarrow> bool" where
  "is_space c = ((of_char c :: nat) = 32 \<or> (9 \<le> (of_char c :: nat) \<and> (of_char c :: nat) \<le> 13))"

definition trim :: "string \<Rightarrow> string" where
  "trim s = rev (dropWhile is_space (rev (dropWhile is_space s)))"

text \<open>\<open>s.includes(sub)\<close>: \<open>sub\<close> occurs in \<open>s\<close> as a contiguous run.\<close>

fun str_includes :: "string \<Rightarrow> string \<Rightarrow> bool" where
  "str_includes [] sub = (sub = [])"
| "str_includes (c # cs) sub = (prefix sub (c # cs) \<or> str_includes cs sub)"

section \<open>Fidelity verifier\<close>

subsection \<open>Screenshot and layout comparison\<close>

definition compareScreenshots :: "buffer option \<Rightarrow> buffer option \<Rightarrow> rat" where
  "compareScreenshots originalBuffer cloneBuffer =
     (case (originalBuffer, cloneBuffer) of
        (Some ob, Some cb) \<Rightarrow>
          (let sizeDifference = \<bar>rat_of_nat (length ob) - rat_of_nat (length cb)\<bar>;
               averageSize = (rat_of_nat (length ob) + rat_of_nat (length cb)) / 2
           in if averageSize = 0 then 1 / 10
              else (let sizeRatio = sizeDifference / averageSize
                    in if sizeRatio < 5 / 100 then 8 / 10
                       else if sizeRatio < 15 / 100 then 6 / 10
                       else if sizeRatio < 3 / 10 then 4 / 10
                       else if sizeRatio < 5 / 10 then 3 / 10
                       else 1 / 10))
      | _ \<Rightarrow> 2 / 10)"

definition devices :: "device list" where
  "devices = [Desktop, Tablet, Mobile]"

definition compareVisualFidelity ::
  "(device \<Rightarrow> buffer option) \<Rightarrow> (device \<Rightarrow> buffer option) \<Rightarrow> rat" where
  "compareVisualFidelity original clone =
     (let (totalScore, comparisons) =
            foldl (\<lambda>(t, c) d.
                     if original d \<noteq> None \<and> clone d \<noteq> None
                     then (t + compareScreenshots (original d) (clone d), c + 1)
                     else (t, c))
                  (0, 0 :: nat) devices
      in if comparisons > 0 then totalScore / rat_of_nat comparisons else 0)"

record layout_item =
  li_tagName :: string
  li_width :: rat
  li_height :: rat

definition compareLayoutArrays :: "layout_item list option \<Rightarrow> layout_item list option \<Rightarrow> rat" where
  "compareLayoutArrays originalLayout clonedLayout =
     (case (originalLayout, clonedLayout) of
        (None, None) \<Rightarrow> 7 / 10
      | (None, Some _) \<Rightarrow> 5 / 10
      | (Some _, None) \<Rightarrow> 5 / 10
      | (Some ol, Some cl) \<Rightarrow>
          if length ol = 0 \<and> length cl = 0 then 1
          else if length ol = 0 \<or> length cl = 0 then 5 / 10
          else (let ratio = rat_of_nat (min (length ol) (length cl))
                            / rat_of_nat (max (length ol) (length cl))
                in if ratio \<ge> 8 / 10 then 1
                   else if ratio \<ge> 6 / 10 then 9 / 10
                   else if ratio \<ge> 4 / 10 then 8 / 10
                   else if ratio \<ge> 2 / 10 then 7 / 10
                   else 6 / 10))"

definition compareResponsiveness ::
  "(device \<Rightarrow> layout_item list option) option \<Rightarrow> (device \<Rightarrow> layout_item list option) option \<Rightarrow> rat" where
  "compareResponsiveness originalResponsive clonedResponsive =
     (case (originalResponsive, clonedResponsive) of
        (None, None) \<Rightarrow> 8 / 10
      | (None, Some _) \<Rightarrow> 7 / 10
      | (Some _, None) \<Rightarrow> 7 / 10
      | (Some orr, Some clr) \<Rightarrow>
          (let (totalScore, comparisons) =
                 foldl (\<lambda>(t, c) d.
                          if orr d \<noteq> None \<and> clr d \<noteq> None
                          then (t + compareLayoutArrays (orr d) (clr d), c + 1)
                          else if orr d \<noteq> None \<or> clr d \<noteq> None
                          then (t + 5 / 10, c + 1)
                          else (t, c))
                       (0, 0 :: nat) devices
           in if comparisons = 0 then 75 / 100
              else (let totalScore' = (if comparisons < 2
                                       then min (totalScore * (12 / 10)) (rat_of_nat comparisons)
                                       else totalScore)
                    in totalScore' / rat_of_nat comparisons)))"

subsection \<open>Structural comparison\<close>

definition matches_type :: "metric \<Rightarrow> element \<Rightarrow> bool" where
  "matches_type ty el =
     (let tn = toLowerCase (tagName el)
      in case ty of
           Images \<Rightarrow> tn = ''img''
         | Sections \<Rightarrow> tn \<in> set [''section'', ''header'', ''footer'', ''main'', ''article'']
         | Containers \<Rightarrow> tn = ''div''
         | Headings \<Rightarrow> tn \<in> set [''h1'', ''h2'', ''h3'', ''h4'', ''h5'', ''h6'']
         | Links \<Rightarrow> tn = ''a''
         | TextNodes \<Rightarrow> trim (textContent el) \<noteq> []
         | ElementCount \<Rightarrow> False)"

fun countInElement :: "metric \<Rightarrow> element \<Rightarrow> nat" where
  "countInElement ty (Element cs tn cn tc ih oh ats lay ch) =
     (if matches_type ty (Element cs tn cn tc ih oh ats lay ch) then 1 else 0)
     + sum_list (map (countInElement ty) ch)"

definition countElementsInStructure :: "element option \<Rightarrow> metric \<Rightarrow> nat" where
  "countElementsInStructure structure ty =
     (case structure of None \<Rightarrow> 0 | Some el \<Rightarrow> countInElement ty el)"

definition hasValidContent :: "element option \<Rightarrow> bool" where
  "hasValidContent structure =
     (case structure of
        None \<Rightarrow> False
      | Some el \<Rightarrow>
          (let hasText = countElementsInStructure (Some el) TextNodes > 0;
               hasElements = countElementsInStructure (Some el) Containers > 0;
               hasImages = countElementsInStructure (Some el) Images > 0;
               hasHeadings = countElementsInStructure (Some el) Headings > 0
           in hasText \<or> hasElements \<or> hasImages \<or> hasHeadings))"

definition metrics :: "metric list" where
  "metrics = [ElementCount, TextNodes, Images, Sections, Containers, Headings, Links]"

definition metric_step :: "element \<Rightarrow> element \<Rightarrow> rat \<times> nat \<Rightarrow> metric \<Rightarrow> rat \<times> nat" where
  "metric_step originalStructure clonedStructure acc m =
     (case map_of (counts originalStructure) m of
        None \<Rightarrow> acc
      | Some original \<Rightarrow>
          (let cloned = countElementsInStructure (Some clonedStructure) m;
               gain = (if original = 0 \<and> cloned = 0 then 1
                       else if original = 0 \<or> cloned = 0 then 3 / 10
                       else min 1 (rat_of_nat (min original cloned) / rat_of_nat (max original cloned)
                                   * (14 / 10)))
           in (fst acc + gain, snd acc + 1)))"

definition compareStructuralFidelity :: "element option \<Rightarrow> element option \<Rightarrow> rat" where
  "compareStructuralFidelity originalStructure clonedStructure =
     (case (originalStructure, clonedStructure) of
        (None, None) \<Rightarrow> 8 / 10
      | (None, Some c) \<Rightarrow> if hasValidContent (Some c) then 7 / 10 else 4 / 10
      | (Some orig, None) \<Rightarrow> 4 / 10
      | (Some orig, Some c) \<Rightarrow>
          (let (score, checks) = foldl (metric_step orig c) (0, 0) metrics;
               score' = (if checks < 3 \<and> score > 0
                         then min (score * (13 / 10)) (rat_of_nat checks) else score);
               finalScore = (if checks > 0 then score' / rat_of_nat checks else 6 / 10)
           in if hasValidContent (Some c) then min (finalScore * (12 / 10)) 1 else finalScore))"

subsection \<open>The scanned data and the content-quality predicate\<close>

text \<open>
  A node of the page-builder document: a section, a column or a widget, told apart by
  \<open>elType\<close>. Of the settings, the model keeps \<open>_column_size\<close>, \<open>_element_id\<close>, \<open>html\<close>
  and the other string-valued content settings in the order they are written. The style
  settings that are copied from an element's computed layout (background, spacing, border,
  typography, height) are left out: no function modelled here reads them back. An absent
  \<open>elements\<close> array and an empty one are treated alike by every reader in the source and
  are both the empty list; an absent \<open>widgetType\<close> is the empty string.
\<close>

record settings =
  column_size :: "int option"
  element_id :: "string option"
  html :: "string option"
  content_fields :: "(string \<times> string) list"

datatype node = Node
  (node_id: "string option")
  (elType: string)
  (widgetType: string)
  (settings: settings)
  (elements: "node list")

text \<open>
  The visual structure of a scan, as \<open>buildVisualStructureMap\<close> of the scraper returns it:
  the pre-built \<open>elementorStructure\<close>, the element tree \<open>structure\<close>, the complete HTML.
  \<open>vs_elements\<close> and \<open>vs_self\<close> are the \<open>elements\<close> array and the element fields
  (\<open>tagName\<close>, \<open>children\<close>, ...) that the object carries itself when a caller passes a
  document node or an element tree in its place; the scraper writes neither.
\<close>

record visual_structure =
  vs_elementorStructure :: "node option"
  vs_elements :: "node list"
  vs_structure :: "element option"
  vs_completeHTML :: string
  vs_self :: element

record layout_data =
  ld_structure :: "element option"

record page_info =
  title :: string

record assets =
  images :: "string list option"
  fonts :: "string list option"
  colors :: "string list option"
  gradients :: "string list option"

text \<open>
  The object that \<open>scrapeVisualLayout\<close> returns and that the route passes to the verifier
  and to the converter. \<open>visualData\<close> is the property of that name which the converter
  reads first ("old and new data structures"); the scraper does not write it.
\<close>

record scanned_data =
  url :: string
  visualData :: "visual_structure option"
  visualStructure :: "visual_structure option"
  responsiveLayouts :: "(device \<Rightarrow> layout_data option) option"
  pageInfo :: "page_info option"
  assets :: "assets option"

definition validateScannedContent :: "scanned_data option \<Rightarrow> bool" where
  "validateScannedContent scannedData =
     (case scannedData of
        None \<Rightarrow> False
      | Some sd \<Rightarrow>
          (let i_structure =
                 (case visualStructure sd of
                    None \<Rightarrow> False
                  | Some vs \<Rightarrow> (case vs_structure vs of
                                 None \<Rightarrow> False
                               | Some st \<Rightarrow> hasValidContent (Some st)));
               i_metadata =
                 (case pageInfo sd of None \<Rightarrow> False | Some p \<Rightarrow> length (title p) > 0);
               i_images =
                 (case assets sd of
                    None \<Rightarrow> False
                  | Some a \<Rightarrow> (case images a of None \<Rightarrow> False | Some xs \<Rightarrow> length xs > 2));
               i_fonts =
                 (case assets sd of
                    None \<Rightarrow> False
                  | Some a \<Rightarrow> (case fonts a of None \<Rightarrow> False | Some xs \<Rightarrow> length xs > 1));
               qualityIndicators = filter id [i_structure, i_metadata, i_images, i_fonts]
           in i_structure \<and> length qualityIndicators \<ge> 2))"

fun extractElements :: "element \<Rightarrow> layout_item list" where
  "extractElements (Element cs tn cn tc ih oh ats lay ch) =
     (case lay of
        None \<Rightarrow> []
      | Some rect \<Rightarrow>
          if width rect > 0 \<and> height rect > 0
          then [\<lparr>li_tagName = toLowerCase tn, li_width = width rect, li_height = height rect\<rparr>]
          else [])
     @ concat (map extractElements ch)"

definition extractResponsiveFromClone :: "scanned_data \<Rightarrow> device \<Rightarrow> layout_item list option" where
  "extractResponsiveFromClone scannedData =
     (case responsiveLayouts scannedData of
        None \<Rightarrow> (\<lambda>d. None)
      | Some rl \<Rightarrow>
          (\<lambda>d. case rl d of
                 None \<Rightarrow> None
               | Some layoutData \<Rightarrow>
                   (case ld_structure layoutData of
                      None \<Rightarrow> None
                    | Some st \<Rightarrow> Some (extractElements st))))"

subsection \<open>Overall score\<close>

datatype details = NoDetails | DetailedAnalysis string string string | FallbackDetails string

record report =
  fidelityScore :: rat
  responsiveScore :: rat
  visualScore :: rat
  structuralScore :: rat
  passed :: bool
  error :: "exn option"
  details :: details

definition toleranceThreshold :: rat where
  "toleranceThreshold = 45 / 100"

definition calculateOverallScore :: "report \<Rightarrow> rat" where
  "calculateOverallScore rep =
     (let weightedScore = visualScore rep * (3 / 10) + structuralScore rep * (5 / 10)
                          + responsiveScore rep * (2 / 10)
      in if weightedScore < 6 / 10 \<and> (structuralScore rep > 4 / 10 \<or> visualScore rep > 4 / 10)
         then max (6 / 10) (weightedScore * (13 / 10))
         else max (5 / 10) weightedScore)"

definition status_of :: "rat \<Rightarrow> string" where
  "status_of score =
     (if score \<ge> 9 / 10 then ''excellent''
      else if score \<ge> 8 / 10 then ''good''
      else if score \<ge> 7 / 10 then ''acceptable''
      else ''needs improvement'')"

definition generateDetailedAnalysis :: "report \<Rightarrow> details" where
  "generateDetailedAnalysis rep =
     DetailedAnalysis (status_of (visualScore rep)) (status_of (structuralScore rep))
       (status_of (responsiveScore rep))"

subsection \<open>Navigation\<close>

text \<open>
  What the browser does is an input of the model. \<open>goto\<close> is the outcome of
  \<open>page.goto(url, {waitUntil, timeout})\<close> for the URL of the request: \<open>None\<close> when the
  promise resolves, \<open>Some e\<close> when it rejects with \<open>e\<close>. The navigation functions return
  the attempts they made, in order, with the result.
\<close>

datatype wait_until = NetworkIdle0 | NetworkIdle2 | DomContentLoaded

datatype nav_event = Goto "wait_until list" nat | Settle nat

type_synonym page_goto = "wait_until list \<Rightarrow> nat \<Rightarrow> exn option"

text \<open>The progressive navigation of \<open>captureOriginalSite\<close> (fidelity verifier).\<close>

definition navigateOriginal :: "page_goto \<Rightarrow> nav_event list \<times> (exn + unit)" where
  "navigateOriginal goto =
     (case goto [NetworkIdle0] 60000 of
        None \<Rightarrow> ([Goto [NetworkIdle0] 60000], Inr ())
      | Some error1 \<Rightarrow>
          (case goto [NetworkIdle2] 45000 of
             None \<Rightarrow> ([Goto [NetworkIdle0] 60000, Goto [NetworkIdle2] 45000], Inr ())
           | Some error2 \<Rightarrow>
               (case goto [DomContentLoaded] 30000 of
                  None \<Rightarrow> ([Goto [NetworkIdle0] 60000, Goto [NetworkIdle2] 45000,
                             Goto [DomContentLoaded] 30000, Settle 3000], Inr ())
                | Some error3 \<Rightarrow> ([Goto [NetworkIdle0] 60000, Goto [NetworkIdle2] 45000,
                                   Goto [DomContentLoaded] 30000], Inl error3))))"

text \<open>The navigation of \<open>scrapeVisualLayout\<close> (visual scraper): one \<open>page.goto\<close>.\<close>

definition navigateScrape :: "page_goto \<Rightarrow> nav_event list \<times> (exn + unit)" where
  "navigateScrape goto =
     (case goto [NetworkIdle0, DomContentLoaded] 30000 of
        None \<Rightarrow> ([Goto [NetworkIdle0, DomContentLoaded] 30000, Settle 3000], Inr ())
      | Some error1 \<Rightarrow> ([Goto [NetworkIdle0, DomContentLoaded] 30000], Inl error1))"

subsection \<open>verifyFidelity\<close>

record original_capture =
  oc_screenshots :: "device \<Rightarrow> buffer option"
  oc_responsive :: "device \<Rightarrow> layout_item list option"
  oc_structure :: "element option"

record clone_capture =
  cc_screenshots :: "device \<Rightarrow> buffer option"
  cc_responsive :: "device \<Rightarrow> layout_item list option"

text \<open>
  The browser during one call of \<open>verifyFidelity\<close>: whether \<open>initialize\<close> throws, how
  each navigation attempt on the original URL ends, what the captures return once the
  page is loaded, and what rendering the clone returns.
\<close>

record verifier_env =
  launch :: "exn option"
  goto :: page_goto
  capture_after_navigation :: "exn + original_capture"
  render_clone :: "exn + clone_capture"

definition captureOriginalSite :: "verifier_env \<Rightarrow> nav_event list \<times> (exn + original_capture)" where
  "captureOriginalSite env =
     (case navigateOriginal (goto env) of
        (trace, Inl lastError) \<Rightarrow> (trace, Inl lastError)
      | (trace, Inr _) \<Rightarrow> (trace, capture_after_navigation env))"

definition renderClonedStructure :: "verifier_env \<Rightarrow> scanned_data option \<Rightarrow> exn + clone_capture" where
  "renderClonedStructure env scannedData =
     (case scannedData of
        None \<Rightarrow> Inl ''TypeError: Cannot read properties of null''
      | Some sd \<Rightarrow> render_clone env)"

definition initial_report :: report where
  "initial_report =
     \<lparr>fidelityScore = 0, responsiveScore = 0, visualScore = 0, structuralScore = 0,
      passed = False, error = None, details = NoDetails\<rparr>"

text \<open>The body of the \<open>try\<close> block after both captures have returned.\<close>

definition score_report :: "original_capture \<Rightarrow> clone_capture \<Rightarrow> scanned_data \<Rightarrow> report \<Rightarrow> report" where
  "score_report originalCapture cloneCapture scannedData rep0 =
     (let rep1 = rep0\<lparr>visualScore :=
                   compareVisualFidelity (oc_screenshots originalCapture) (cc_screenshots cloneCapture)\<rparr>;
          clonedStructure =
            (case visualStructure scannedData of
               None \<Rightarrow> None
             | Some vs \<Rightarrow> (case vs_structure vs of Some st \<Rightarrow> Some st | None \<Rightarrow> Some (vs_self vs)));
          rep2 = rep1\<lparr>structuralScore :=
                   compareStructuralFidelity (oc_structure originalCapture) clonedStructure\<rparr>;
          clonedResponsive = extractResponsiveFromClone scannedData;
          rep3 = rep2\<lparr>responsiveScore :=
                   compareResponsiveness (Some (oc_responsive originalCapture)) (Some clonedResponsive)\<rparr>;
          rep4 = rep3\<lparr>fidelityScore := calculateOverallScore rep3\<rparr>;
          rep5 = rep4\<lparr>passed := (fidelityScore rep4 \<ge> toleranceThreshold)\<rparr>
      in rep5\<lparr>details := generateDetailedAnalysis rep5\<rparr>)"

text \<open>The \<open>catch\<close> block.\<close>

definition fallback_report :: "exn \<Rightarrow> scanned_data option \<Rightarrow> report \<Rightarrow> report" where
  "fallback_report e scannedData rep0 =
     (let rep1 = rep0\<lparr>error := Some e\<rparr>;
          hasValidContent = validateScannedContent scannedData
      in if hasValidContent
         then (let rep2 = rep1\<lparr>structuralScore := 25 / 100\<rparr>;
                   rep3 = rep2\<lparr>visualScore := 15 / 100\<rparr>;
                   rep4 = rep3\<lparr>responsiveScore := 20 / 100\<rparr>;
                   rep5 = rep4\<lparr>fidelityScore := calculateOverallScore rep4\<rparr>;
                   rep6 = rep5\<lparr>passed := (fidelityScore rep5 \<ge> toleranceThreshold)\<rparr>
               in rep6\<lparr>details :=
                    FallbackDetails ''Verification failed - conservative scoring applied''\<rparr>)
         else (let rep2 = rep1\<lparr>structuralScore := 10 / 100\<rparr>;
                   rep3 = rep2\<lparr>visualScore := 5 / 100\<rparr>;
                   rep4 = rep3\<lparr>responsiveScore := 10 / 100\<rparr>;
                   rep5 = rep4\<lparr>fidelityScore := calculateOverallScore rep4\<rparr>;
                   rep6 = rep5\<lparr>passed := False\<rparr>
               in rep6\<lparr>details :=
                    FallbackDetails ''Verification failed with insufficient content captured''\<rparr>))"

type_synonym progress = "string \<times> rat"

text \<open>
  \<open>verifyFidelity\<close> returns the progress events it passed to its callback and either
  the error it threw (\<open>Inl\<close>) or the report it returned (\<open>Inr\<close>). \<open>initialize\<close> and the
  first progress event come before the \<open>try\<close>.
\<close>

definition verifyFidelity ::
  "verifier_env \<Rightarrow> scanned_data option \<Rightarrow> progress list \<times> (exn + report)" where
  "verifyFidelity env scannedData =
     (case launch env of
        Some e \<Rightarrow> ([], Inl e)
      | None \<Rightarrow>
          (let p0 = [(''preparing_verification'', 5)];
               p1 = p0 @ [(''capturing_original'', 20)]
           in case snd (captureOriginalSite env) of
                Inl e \<Rightarrow> (p1, Inr (fallback_report e scannedData initial_report))
              | Inr originalCapture \<Rightarrow>
                  (let p2 = p1 @ [(''rendering_clone'', 40)]
                   in case renderClonedStructure env scannedData of
                        Inl e \<Rightarrow> (p2, Inr (fallback_report e scannedData initial_report))
                      | Inr cloneCapture \<Rightarrow>
                          (case scannedData of
                             None \<Rightarrow> (p2, Inr (fallback_report
                                          ''TypeError: Cannot read properties of null''
                                          scannedData initial_report))
                           | Some sd \<Rightarrow>
                               (p2 @ [(''analyzing_visual_diff'', 60), (''analyzing_structure'', 75),
                                      (''analyzing_responsiveness'', 85),
                                      (''calculating_final_score'', 95)],
                                Inr (score_report originalCapture cloneCapture sd initial_report))))))"

text \<open>
  Whether a step inside the \<open>try\<close> block throws: the capture of the original site or
  the rendering of the clone.
\<close>

definition step_throws :: "verifier_env \<Rightarrow> scanned_data option \<Rightarrow> bool" where
  "step_throws env scannedData =
     (case snd (captureOriginalSite env) of
        Inl e \<Rightarrow> True
      | Inr oc \<Rightarrow> (case renderClonedStructure env scannedData of Inl e \<Rightarrow> True | Inr cc \<Rightarrow> False))"


subsection \<open>Concrete browsers and scans\<close>

definition no_attributes :: attributes where
  "no_attributes = \<lparr>src = [], href = [], alt = [], attr_type = [], attr_value = [], placeholder = []\<rparr>"

text \<open>A host that no navigation attempt reaches.\<close>

definition env_unreachable :: verifier_env where
  "env_unreachable =
     \<lparr>launch = None, goto = (\<lambda>w t. Some ''net::ERR_NAME_NOT_RESOLVED''),
      capture_after_navigation = Inl ''unreachable'', render_clone = Inl ''unreachable''\<rparr>"

text \<open>A machine on which the verifier's browser does not start.\<close>

definition env_no_browser :: verifier_env where
  "env_no_browser =
     \<lparr>launch = Some ''Failed to launch the browser process'', goto = (\<lambda>w t. None),
      capture_after_navigation = Inl ''unreachable'', render_clone = Inl ''unreachable''\<rparr>"

text \<open>A scan of a page whose body holds one \<open>div\<close> with the text \<open>Hello\<close>, titled \<open>Home\<close>.\<close>

definition paragraph_page :: element where
  "paragraph_page =
     Element [] ''body'' [] [] [] [] no_attributes None
       [Element [] ''div'' [] ''Hello'' ''Hello'' ''<div>Hello</div>'' no_attributes None []]"

definition no_element :: element where
  "no_element = Element [] [] [] [] [] [] no_attributes None []"

definition scanned_ok :: scanned_data where
  "scanned_ok =
     \<lparr>url = ''https://example.org/'', visualData = None,
      visualStructure = Some \<lparr>vs_elementorStructure = None, vs_elements = [],
                              vs_structure = Some paragraph_page, vs_completeHTML = [],
                              vs_self = no_element\<rparr>,
      responsiveLayouts = None,
      pageInfo = Some \<lparr>title = ''Home''\<rparr>,
      assets = None\<rparr>"




text \<open>
  A page that keeps one connection open: waiting for no connection at all times out,
  waiting for at most two connections succeeds.
\<close>

definition goto_polling :: page_goto where
  "goto_polling w t = (if NetworkIdle0 \<in> set w then Some ''Navigation timeout exceeded'' else None)"

section \<open>Converter\<close>

subsection \<open>Identifiers\<close>

text \<open>
  The converter object: the two palette sets (in insertion order, without duplicates) and
  the number of calls of \<open>Math.random\<close> made so far. The values that \<open>Math.random\<close>
  returns are an input of the model: \<open>rnd k\<close> is the value of call number \<open>k\<close>.
\<close>

record converter =
  globalColors :: "string list"
  globalFonts :: "string list"
  draws :: nat

definition new_converter :: converter where
  "new_converter = \<lparr>globalColors = [], globalFonts = [], draws = 0\<rparr>"

definition chars :: string where
  "chars = ''abcdefghijklmnopqrstuvwxyz0123456789''"

definition charAt :: "string \<Rightarrow> int \<Rightarrow> string" where
  "charAt s i = (if 0 \<le> i \<and> nat i < length s then [s ! nat i] else [])"

definition generateElementId :: "(nat \<Rightarrow> rat) \<Rightarrow> converter \<Rightarrow> string \<times> converter" where
  "generateElementId rnd c =
     (concat (map (\<lambda>i. charAt chars \<lfloor>rnd (draws c + i) * rat_of_nat (length chars)\<rfloor>) [0..<8]),
      c\<lparr>draws := draws c + 8\<rparr>)"

subsection \<open>Sections, columns and widgets\<close>

definition createDefaultColumn :: "(nat \<Rightarrow> rat) \<Rightarrow> converter \<Rightarrow> node \<times> converter" where
  "createDefaultColumn rnd c =
     (case generateElementId rnd c of
        (i, c1) \<Rightarrow>
          (Node (Some i) ''column''  []
             \<lparr>column_size = Some 100, element_id = None, html = None, content_fields = []\<rparr> [],
           c1))"

definition createDefaultSection :: "(nat \<Rightarrow> rat) \<Rightarrow> converter \<Rightarrow> node \<times> converter" where
  "createDefaultSection rnd c =
     (case generateElementId rnd c of
        (i, c1) \<Rightarrow>
          (case createDefaultColumn rnd c1 of
             (col, c2) \<Rightarrow>
               (Node (Some i) ''section'' []
                  \<lparr>column_size = None, element_id = None, html = None,
                   content_fields = [(''content_width'', ''boxed'')]\<rparr> [col],
                c2)))"

definition createSection :: "(nat \<Rightarrow> rat) \<Rightarrow> element \<Rightarrow> converter \<Rightarrow> node \<times> converter" where
  "createSection rnd el c =
     (case generateElementId rnd c of
        (i, c1) \<Rightarrow>
          (Node (Some i) ''section'' []
             \<lparr>column_size = None, element_id = None, html = None,
              content_fields = [(''content_width'', ''boxed''), (''structure'', ''10'')]\<rparr> [],
           c1))"

definition createColumn :: "(nat \<Rightarrow> rat) \<Rightarrow> converter \<Rightarrow> node \<times> converter" where
  "createColumn rnd c =
     (case generateElementId rnd c of
        (i, c1) \<Rightarrow>
          (Node (Some i) ''column'' []
             \<lparr>column_size = Some 100, element_id = None, html = None, content_fields = []\<rparr> [],
           c1))"

text \<open>
  \<open>parseInt\<close> on a decimal prefix: leading white space, an optional sign, digits.
  \<open>None\<close> is \<open>NaN\<close>. (Hexadecimal prefixes do not occur in computed CSS lengths.)
\<close>

definition digits_value :: "string \<Rightarrow> int" where
  "digits_value ds = foldl (\<lambda>acc d. acc * 10 + (int (of_char d) - 48)) 0 ds"

definition parseInt :: "string \<Rightarrow> int option" where
  "parseInt s =
     (let t = dropWhile is_space s;
          (sign, u) = (case t of
                         [] \<Rightarrow> (1, [])
                       | c # cs \<Rightarrow> if c = CHR ''-'' then (- 1, cs)
                                   else if c = CHR ''+'' then (1, cs) else (1, t));
          ds = takeWhile is_digit u
      in if ds = [] then None else Some (sign * digits_value ds))"

text \<open>
  The test of \<open>/\b(btn|button|cta|call-to-action)\b/i\<close>: one of the words occurs, ignoring
  case, with no word character before it and none after it.
\<close>

definition word_char :: "char \<Rightarrow> bool" where
  "word_char c = (is_upper c \<or> is_lower c \<or> is_digit c \<or> c = CHR ''_'')"

definition boundary_after :: "string \<Rightarrow> bool" where
  "boundary_after rest = (case rest of [] \<Rightarrow> True | d # ds \<Rightarrow> \<not> word_char d)"

fun word_search :: "string list \<Rightarrow> bool \<Rightarrow> string \<Rightarrow> bool" where
  "word_search ws prev_word [] = False"
| "word_search ws prev_word (c # cs) =
     ((\<not> prev_word
        \<and> list_ex (\<lambda>w. prefix w (toLowerCase (c # cs)) \<and> boundary_after (drop (length w) (c # cs))) ws)
      \<or> word_search ws (word_char c) cs)"

definition button_class :: "string \<Rightarrow> bool" where
  "button_class cn = word_search [''btn'', ''button'', ''cta'', ''call-to-action''] False cn"

definition int_gt :: "int option \<Rightarrow> int \<Rightarrow> bool" where
  "int_gt v k = (case v of None \<Rightarrow> False | Some n \<Rightarrow> n > k)"

definition isButtonLike :: "element \<Rightarrow> bool" where
  "isButtonLike el =
     (if className el \<noteq> [] \<and> button_class (className el) then True
      else case layout el of
             None \<Rightarrow> False
           | Some l \<Rightarrow>
               (let hasBackground = (backgroundColor l \<noteq> [] \<and> backgroundColor l \<noteq> ''rgba(0, 0, 0, 0)'');
                    hasPadding = (int_gt (parseInt (padding_top l)) 5 \<or> int_gt (parseInt (padding_left l)) 10);
                    hasBorder = (border l \<noteq> [] \<and> border l \<noteq> ''none'');
                    hasRadius = (borderRadius l \<noteq> [] \<and> int_gt (parseInt (borderRadius l)) 0)
                in (hasBackground \<and> hasPadding) \<or> hasBorder \<or> hasRadius))"

definition dq :: string where
  "dq = [CHR 0x22]"

definition or_else :: "string \<Rightarrow> string \<Rightarrow> string" where
  "or_else a b = (if a \<noteq> [] then a else b)"

definition reconstructListHTML :: "element \<Rightarrow> string" where
  "reconstructListHTML el =
     ''<'' @ tagName el @ ''>''
     @ concat (map (\<lambda>child. ''<li>'' @ textContent child @ ''</li>'') (children el))
     @ ''</'' @ tagName el @ ''>''"

definition widget :: "string \<Rightarrow> string \<Rightarrow> string \<Rightarrow> string option \<Rightarrow> (string \<times> string) list \<Rightarrow> node" where
  "widget i eid wt h fs =
     Node (Some i) ''widget'' wt
       \<lparr>column_size = None, element_id = Some eid, html = h, content_fields = fs\<rparr> []"

definition wrap_tag :: "string \<Rightarrow> string \<Rightarrow> string" where
  "wrap_tag tn body = ''<'' @ tn @ ''>'' @ body @ ''</'' @ tn @ ''>''"

text \<open>
  The content of the widget for an element, by its tag: the widget type, the \<open>html\<close>
  setting and the other content settings; \<open>None\<close> where \<open>createWidget\<close> returns \<open>null\<close>.
\<close>

definition widget_content :: "element \<Rightarrow> (string \<times> string option \<times> (string \<times> string) list) option" where
  "widget_content el =
     (let tn = tagName el; tc = textContent el; ih = innerHTML el; oh = outerHTML el;
          a = attributes el
      in if tn \<in> set [''h1'', ''h2'', ''h3'', ''h4'', ''h5'', ''h6'']
         then Some (''heading'', None,
                    [(''title'', or_else tc ''Heading''), (''header_size'', tn), (''size'', ''default'')])
         else if tn = ''img''
         then Some (''image'', None,
                    (if src a \<noteq> [] then [(''image.url'', src a)] else [])
                    @ [(''image_size'', ''full''), (''caption'', alt a), (''align'', ''center'')])
         else if tn = ''a''
         then (if isButtonLike el
               then Some (''button'', None,
                          [(''text'', or_else tc ''Click here'')]
                          @ (if href a \<noteq> [] then [(''link.url'', href a)] else [])
                          @ [(''size'', ''md''), (''button_type'', ''success'')])
               else Some (''text-editor'', None,
                          [(''editor'', ''<a href='' @ dq @ or_else (href a) ''#'' @ dq @ ''>''
                                        @ or_else tc ''Link'' @ ''</a>'')]))
         else if tn \<in> set [''p'', ''span'', ''div'']
         then (let content = (if ih \<noteq> [] \<and> trim ih \<noteq> [] then ih else tc)
               in if content \<noteq> [] \<and> trim content \<noteq> []
                  then Some (''text-editor'', None,
                             [(''editor'', if ih \<noteq> [] \<and> trim ih \<noteq> [] then ih else wrap_tag tn tc)])
                  else None)
         else if tn = ''form''
         then Some (''html'', Some (or_else oh (or_else ih (wrap_tag ''form'' tc))),
                    [(''title'', ''Form Element'')])
         else if tn \<in> set [''input'', ''textarea'', ''select'']
         then (let inputType = or_else (attr_type a) ''text''
               in if inputType \<in> set [''submit'', ''button'']
                  then Some (''button'', None,
                             [(''text'', or_else (attr_value a) (or_else tc ''Submit'')),
                              (''size'', ''md''), (''button_type'', ''primary'')])
                  else Some (''html'',
                             Some (or_else oh (''<'' @ tn @ '' type='' @ dq @ inputType @ dq
                                               @ '' placeholder='' @ dq @ placeholder a @ dq
                                               @ '' value='' @ dq @ attr_value a @ dq @ '' />'')),
                             [(''title'', toUpperCase tn @ '' Field'')]))
         else if tn \<in> set [''video'', ''iframe'']
         then (let videoSrc = src a
               in if str_includes videoSrc ''youtube'' \<or> str_includes videoSrc ''vimeo''
                  then Some (''video'', None,
                             [(''video_type'', if str_includes videoSrc ''youtube'' then ''youtube'' else ''vimeo''),
                              (''youtube_url'', if str_includes videoSrc ''youtube'' then videoSrc else []),
                              (''vimeo_url'', if str_includes videoSrc ''vimeo'' then videoSrc else []),
                              (''aspect_ratio'', ''169'')])
                  else Some (''html'',
                             Some (or_else oh (or_else ih (''<'' @ tn @ '' src='' @ dq @ videoSrc @ dq @ ''></'' @ tn @ ''>''))),
                             [(''title'', ''Video/Media Element'')]))
         else if tn \<in> set [''ul'', ''ol'']
         then Some (''text-editor'', None, [(''editor'', reconstructListHTML el)])
         else if tn = ''button''
         then Some (''button'', None,
                    [(''text'', or_else tc ''Button''), (''size'', ''md''), (''button_type'', ''primary'')])
         else if tn \<in> set [''table'', ''tbody'', ''thead'', ''tr'', ''td'', ''th'']
         then Some (''html'', Some (or_else oh (or_else ih (wrap_tag tn tc))),
                    [(''title'', ''Table Element'')])
         else if tn = ''svg''
         then Some (''html'', Some (or_else oh (or_else ih (wrap_tag tn tc))), [(''title'', ''SVG Icon'')])
         else if tn \<in> set [''nav'', ''menu'']
         then Some (''nav-menu'', None, [(''layout'', ''horizontal''), (''pointer'', ''underline'')])
         else (let hasContent = ((ih \<noteq> [] \<and> trim ih \<noteq> []) \<or> (tc \<noteq> [] \<and> trim tc \<noteq> []));
                   isStructural = (tn \<in> set [''section'', ''header'', ''footer'', ''article'', ''aside'', ''main''])
               in if hasContent \<or> isStructural
                  then Some (''html'', Some (or_else oh (or_else ih (wrap_tag tn tc))),
                             [(''title'', toUpperCase tn @ '' Element'')])
                  else None))"

text \<open>
  \<open>createWidget\<close> draws the \<open>_element_id\<close> first, also when it then returns \<open>null\<close>, and
  the \<open>id\<close> when it builds the widget.
\<close>

definition createWidget :: "(nat \<Rightarrow> rat) \<Rightarrow> element \<Rightarrow> converter \<Rightarrow> node option \<times> converter" where
  "createWidget rnd el c =
     (case generateElementId rnd c of
        (eid, c1) \<Rightarrow>
          (case widget_content el of
             None \<Rightarrow> (None, c1)
           | Some (wt, h, fs) \<Rightarrow>
               (case generateElementId rnd c1 of
                  (i, c2) \<Rightarrow> (Some (widget i eid wt h fs), c2))))"

subsection \<open>Classification\<close>

datatype parent_type = PBody | PSection | PColumn

datatype el_type = TSection | TColumn | TWidget

definition determineElementorType :: "element \<Rightarrow> parent_type \<Rightarrow> el_type" where
  "determineElementorType el parentType =
     (let tn = tagName el; ch = children el;
          hasMultipleChildren = (length ch > 2);
          bodySection =
            (parentType = PBody \<and>
             (let isStructuralElement =
                    (tn \<in> set [''section'', ''header'', ''footer'', ''main'', ''article'', ''nav'', ''aside'']);
                  isLargeContainer =
                    (case layout el of None \<Rightarrow> False | Some l \<Rightarrow> height l > 200 \<and> width l > 300)
              in isStructuralElement \<or> isLargeContainer \<or> hasMultipleChildren
                 \<or> (tn = ''div'' \<and>
                     (let isFlexContainer =
                            (case layout el of None \<Rightarrow> False
                             | Some l \<Rightarrow> display l \<in> set [''flex'', ''grid'']);
                          hasLayoutChildren =
                            list_ex (\<lambda>child. case layout child of None \<Rightarrow> False
                                              | Some l \<Rightarrow> width l > 100) ch
                      in isFlexContainer \<or> hasLayoutChildren \<or> hasMultipleChildren))));
          sectionColumn =
            (parentType = PSection \<and>
             (let hasContent = (trim (textContent el) \<noteq> [] \<or> trim (innerHTML el) \<noteq> []);
                  hasChildren = (length ch > 0);
                  isColumnCandidate = (tn \<in> set [''div'', ''article'', ''aside'', ''section''])
              in hasChildren \<or> hasContent \<or> isColumnCandidate))
      in if bodySection then TSection
         else if sectionColumn then TColumn
         else if parentType = PColumn then TWidget
         else if length ch = 0 then TWidget
         else if parentType = PBody
         then (let hasSubstantialContent = (length (textContent el) > 50 \<or> length ch > 1)
               in if hasSubstantialContent then TSection else TWidget)
         else if parentType = PSection then TColumn
         else TWidget)"

subsection \<open>Columns of a section\<close>

record layout_analysis =
  totalWidth :: rat
  averageWidth :: rat
  hasFlexLayout :: bool
  hasGridLayout :: bool

definition analyzeChildrenLayout :: "element list \<Rightarrow> layout_analysis" where
  "analyzeChildrenLayout chs =
     (let total = sum_list (map (\<lambda>child. case layout child of None \<Rightarrow> 0 | Some l \<Rightarrow> width l) chs)
      in \<lparr>totalWidth = total,
          averageWidth = (if length chs > 0 then total / rat_of_nat (length chs) else 0),
          hasFlexLayout = list_ex (\<lambda>child. case layout child of None \<Rightarrow> False
                                            | Some l \<Rightarrow> display l = ''flex'') chs,
          hasGridLayout = list_ex (\<lambda>child. case layout child of None \<Rightarrow> False
                                            | Some l \<Rightarrow> display l = ''grid'') chs\<rparr>)"

definition shouldStartNewColumn :: "element \<Rightarrow> element list \<Rightarrow> layout_analysis \<Rightarrow> bool" where
  "shouldStartNewColumn child currentChildren layoutAnalysis =
     (if length currentChildren = 0 then False
      else if (case layout child of None \<Rightarrow> False
               | Some l \<Rightarrow> position l \<in> set [''absolute'', ''fixed'']) then True
      else if tagName child \<in> set [''section'', ''header'', ''footer'', ''main'', ''article'', ''aside'']
      then True
      else case layout child of
             None \<Rightarrow> False
           | Some l \<Rightarrow>
               if width l > averageWidth layoutAnalysis * (15 / 10) then True
               else if hasFlexLayout layoutAnalysis \<or> hasGridLayout layoutAnalysis
               then (case layout (last currentChildren) of
                       None \<Rightarrow> False
                     | Some pl \<Rightarrow> y l > y pl + height pl)
               else False)"

definition contentWeight :: "node \<Rightarrow> rat" where
  "contentWeight column =
     (let weight0 = 1 + rat_of_nat (length (elements column)) * (2 / 10);
          hasMedia = list_ex (\<lambda>w. widgetType w \<in> set [''image'', ''video'']) (elements column);
          weight1 = (if hasMedia then weight0 + 5 / 10 else weight0);
          hasForm = list_ex (\<lambda>w. widgetType w = ''html'' \<and>
                                 (case html (settings w) of
                                    None \<Rightarrow> False
                                  | Some h \<Rightarrow> str_includes h ''<form'' \<or> str_includes h ''<input''))
                            (elements column)
      in if hasForm then weight1 + 3 / 10 else weight1)"

definition js_round :: "rat \<Rightarrow> int" where
  "js_round q = \<lfloor>q + 1 / 2\<rfloor>"

text \<open>
  The widths of the columns whose weights are still to be visited, given the total weight
  and the width used so far: the last column gets what remains of 100, every other column
  its rounded share clamped to \<open>[15, 70]\<close>.
\<close>

fun allocate :: "rat \<Rightarrow> int \<Rightarrow> rat list \<Rightarrow> int list" where
  "allocate totalWeight usedWidth [] = []"
| "allocate totalWeight usedWidth [w] = [100 - usedWidth]"
| "allocate totalWeight usedWidth (w # w' # ws) =
     (let width = max 15 (min 70 (js_round (w / totalWeight * 100)))
      in width # allocate totalWeight (usedWidth + width) (w' # ws))"

definition set_column_size :: "node \<Rightarrow> int \<Rightarrow> node" where
  "set_column_size col w =
     Node (node_id col) (elType col) (widgetType col) ((settings col)\<lparr>column_size := Some w\<rparr>)
       (elements col)"

definition set_elements :: "node \<Rightarrow> node list \<Rightarrow> node" where
  "set_elements n els = Node (node_id n) (elType n) (widgetType n) (settings n) els"

definition calculateIntelligentColumnWidths :: "node list \<Rightarrow> node list" where
  "calculateIntelligentColumnWidths columns =
     (if length columns = 0 then []
      else if length columns = 1 then [set_column_size (hd columns) 100]
      else (let contentWeights = map contentWeight columns;
                totalWeight = sum_list contentWeights
            in map (\<lambda>(col, w). set_column_size col w)
                 (zip columns (allocate totalWeight 0 contentWeights))))"

definition opt_list :: "'a option \<Rightarrow> 'a list" where
  "opt_list r = (case r of None \<Rightarrow> [] | Some v \<Rightarrow> [v])"

fun create_widgets :: "(nat \<Rightarrow> rat) \<Rightarrow> element list \<Rightarrow> converter \<Rightarrow> node list \<times> converter" where
  "create_widgets rnd [] c = ([], c)"
| "create_widgets rnd (e # es) c =
     (case createWidget rnd e c of
        (w, c1) \<Rightarrow> (case create_widgets rnd es c1 of (ws, c2) \<Rightarrow> (opt_list w @ ws, c2)))"

text \<open>
  One column from the children gathered so far: the column is kept when at least one of
  them converts to a widget.
\<close>

definition make_column :: "(nat \<Rightarrow> rat) \<Rightarrow> element list \<Rightarrow> converter \<Rightarrow> node list \<times> converter" where
  "make_column rnd currentColumnChildren c =
     (case createColumn rnd c of
        (column, c1) \<Rightarrow>
          (case create_widgets rnd currentColumnChildren c1 of
             (widgets, c2) \<Rightarrow>
               (if length widgets > 0 then [set_elements column widgets] else [], c2)))"

definition column_step ::
  "(nat \<Rightarrow> rat) \<Rightarrow> layout_analysis \<Rightarrow> node list \<times> element list \<times> converter \<Rightarrow> element
   \<Rightarrow> node list \<times> element list \<times> converter" where
  "column_step rnd layoutAnalysis acc child =
     (case acc of
        (columns, currentColumnChildren, c) \<Rightarrow>
          if shouldStartNewColumn child currentColumnChildren layoutAnalysis
             \<and> length currentColumnChildren > 0
          then (case make_column rnd currentColumnChildren c of
                  (col, c1) \<Rightarrow> (columns @ col, [child], c1))
          else (columns, currentColumnChildren @ [child], c))"

definition createColumnsFromChildren ::
  "(nat \<Rightarrow> rat) \<Rightarrow> element list \<Rightarrow> converter \<Rightarrow> node list \<times> converter" where
  "createColumnsFromChildren rnd chs c =
     (if length chs = 0
      then (case createDefaultColumn rnd c of (col, c1) \<Rightarrow> ([col], c1))
      else (let layoutAnalysis = analyzeChildrenLayout chs
            in case foldl (column_step rnd layoutAnalysis) ([], [], c) chs of
                 (columns, currentColumnChildren, c1) \<Rightarrow>
                   (case (if length currentColumnChildren > 0
                          then (case make_column rnd currentColumnChildren c1 of
                                  (col, c2) \<Rightarrow> (columns @ col, c2))
                          else (columns, c1)) of
                      (columns2, c2) \<Rightarrow>
                        if length columns2 = 0
                        then (case createDefaultColumn rnd c2 of (col, c3) \<Rightarrow> ([col], c3))
                        else (calculateIntelligentColumnWidths columns2, c2))))"

subsection \<open>Building the content\<close>

text \<open>
  \<open>processElement\<close>. \<open>determineElementorType\<close> returns one of three types, so the
  \<open>default\<close> branch of the source's \<open>switch\<close> is never taken and has no counterpart here.
\<close>

fun processElement ::
    "(nat \<Rightarrow> rat) \<Rightarrow> parent_type \<Rightarrow> nat \<Rightarrow> element \<Rightarrow> converter \<Rightarrow> node option \<times> converter"
  and processChildren ::
    "(nat \<Rightarrow> rat) \<Rightarrow> parent_type \<Rightarrow> nat \<Rightarrow> element list \<Rightarrow> converter \<Rightarrow> node list \<times> converter"
  where
  "processElement rnd parentType depth (Element cs tn cn tc ih oh ats lay ch) c =
     (if depth > 30 then (None, c)
      else case determineElementorType (Element cs tn cn tc ih oh ats lay ch) parentType of
             TSection \<Rightarrow>
               (case createSection rnd (Element cs tn cn tc ih oh ats lay ch) c of
                  (section, c1) \<Rightarrow>
                    if length ch > 0
                    then (case createColumnsFromChildren rnd ch c1 of
                            (columns, c2) \<Rightarrow> (Some (set_elements section columns), c2))
                    else (Some section, c1))
           | TColumn \<Rightarrow>
               (case createColumn rnd c of
                  (column, c1) \<Rightarrow>
                    if length ch > 0
                    then (case processChildren rnd PColumn (depth + 1) ch c1 of
                            (widgets, c2) \<Rightarrow> (Some (set_elements column widgets), c2))
                    else (Some column, c1))
           | TWidget \<Rightarrow> createWidget rnd (Element cs tn cn tc ih oh ats lay ch) c)"
| "processChildren rnd parentType depth [] c = ([], c)"
| "processChildren rnd parentType depth (e # es) c =
     (case processElement rnd parentType depth e c of
        (r, c1) \<Rightarrow>
          (case processChildren rnd parentType depth es c1 of
             (rs, c2) \<Rightarrow> (opt_list r @ rs, c2)))"

text \<open>
  The search for a pre-built structure, on the objects a scan consists of: the result is
  the \<open>elements\<close> array of the object found. Inside a visual structure the search returns
  the \<open>elementorStructure\<close> property when there is one, and the object itself when it has
  a non-empty \<open>elements\<close> array; the element trees, the page information and the assets
  have neither property, so the recursive descent finds nothing in them.
\<close>

definition find_in_structure :: "visual_structure \<Rightarrow> node list option" where
  "find_in_structure vs =
     (case vs_elementorStructure vs of
        Some found \<Rightarrow> Some (elements found)
      | None \<Rightarrow> if length (vs_elements vs) > 0 then Some (vs_elements vs) else None)"

definition findElementorStructure :: "scanned_data \<Rightarrow> node list option" where
  "findElementorStructure sd =
     (case visualData sd of
        Some vs \<Rightarrow> find_in_structure vs
      | None \<Rightarrow> (case visualStructure sd of
                   Some vs \<Rightarrow> find_in_structure vs
                 | None \<Rightarrow> None))"

fun ensure_columns :: "(nat \<Rightarrow> rat) \<Rightarrow> node list \<Rightarrow> converter \<Rightarrow> node list \<times> converter" where
  "ensure_columns rnd [] c = ([], c)"
| "ensure_columns rnd (section # rest) c =
     (case (if elType section = ''section'' \<and> length (elements section) = 0
            then (case createDefaultColumn rnd c of
                    (col, c1) \<Rightarrow> (set_elements section [col], c1))
            else (section, c)) of
        (section', c1) \<Rightarrow>
          (case ensure_columns rnd rest c1 of (rest', c2) \<Rightarrow> (section' # rest', c2)))"

text \<open>
  The structure the raw walk starts from: \<open>visualStructure.structure || visualStructure\<close>,
  where \<open>visualStructure\<close> is \<open>visualData.visualData || visualData\<close>. When the scan has no
  \<open>visualData\<close> property the walk starts from the scan object itself, which has neither
  \<open>children\<close> nor \<open>tagName\<close>.
\<close>

definition actualStructure :: "scanned_data \<Rightarrow> element option" where
  "actualStructure sd =
     (case visualData sd of
        Some vs \<Rightarrow> Some (case vs_structure vs of Some el \<Rightarrow> el | None \<Rightarrow> vs_self vs)
      | None \<Rightarrow> None)"

definition walk_sections :: "(nat \<Rightarrow> rat) \<Rightarrow> scanned_data \<Rightarrow> converter \<Rightarrow> node list \<times> converter" where
  "walk_sections rnd sd c =
     (case actualStructure sd of
        None \<Rightarrow> ([], c)
      | Some a \<Rightarrow>
          if length (children a) > 0 then processChildren rnd PBody 0 (children a) c
          else if tagName a \<noteq> []
          then (case processElement rnd PBody 0 a c of (r, c1) \<Rightarrow> (opt_list r, c1))
          else ([], c))"

definition buildElementorFromVisual ::
  "(nat \<Rightarrow> rat) \<Rightarrow> scanned_data \<Rightarrow> converter \<Rightarrow> node list \<times> converter" where
  "buildElementorFromVisual rnd sd c =
     (case findElementorStructure sd of
        Some (s # preBuiltSections) \<Rightarrow> (s # preBuiltSections, c)
      | _ \<Rightarrow>
          (case walk_sections rnd sd c of
             (sections, c1) \<Rightarrow>
               (case (if length sections = 0
                      then (case createDefaultSection rnd c1 of (s, c2) \<Rightarrow> ([s], c2))
                      else (sections, c1)) of
                  (sections2, c2) \<Rightarrow> ensure_columns rnd sections2 c2)))"

subsection \<open>Palettes and the assembled template\<close>

definition set_add :: "string \<Rightarrow> string list \<Rightarrow> string list" where
  "set_add v vs = (if v \<in> set vs then vs else vs @ [v])"

definition extractGlobalAssets :: "assets option \<Rightarrow> converter \<Rightarrow> converter" where
  "extractGlobalAssets assets_opt c =
     (case assets_opt of
        None \<Rightarrow> c
      | Some a \<Rightarrow>
          (let c1 = (case colors a of
                       None \<Rightarrow> c
                     | Some cs \<Rightarrow>
                         c\<lparr>globalColors :=
                             foldl (\<lambda>acc color.
                                      if color \<noteq> [] \<and> color \<noteq> ''transparent''
                                         \<and> color \<noteq> ''rgba(0, 0, 0, 0)''
                                      then set_add color acc else acc)
                                   (globalColors c) cs\<rparr>)
           in case fonts a of
                None \<Rightarrow> c1
              | Some fs \<Rightarrow>
                  c1\<lparr>globalFonts :=
                       foldl (\<lambda>acc font. if font \<noteq> [] \<and> font \<noteq> ''inherit''
                                         then set_add font acc else acc)
                             (globalFonts c1) fs\<rparr>))"

fun show_nat :: "nat \<Rightarrow> string" where
  "show_nat n = (if n < 10 then [char_of (48 + n)]
                 else show_nat (n div 10) @ [char_of (48 + n mod 10)])"

record palette_entry =
  pe_id :: string
  pe_title :: string
  pe_value :: string

fun palette ::
  "(nat \<Rightarrow> rat) \<Rightarrow> string \<Rightarrow> nat \<Rightarrow> string list \<Rightarrow> converter \<Rightarrow> palette_entry list \<times> converter" where
  "palette rnd label index [] c = ([], c)"
| "palette rnd label index (v # vs) c =
     (case generateElementId rnd c of
        (i, c1) \<Rightarrow>
          (case palette rnd label (index + 1) vs c1 of
             (rest, c2) \<Rightarrow>
               (\<lparr>pe_id = i, pe_title = label @ '' '' @ show_nat (index + 1), pe_value = v\<rparr> # rest,
                c2)))"

fun system_palette ::
  "(nat \<Rightarrow> rat) \<Rightarrow> (string \<times> string) list \<Rightarrow> converter \<Rightarrow> palette_entry list \<times> converter" where
  "system_palette rnd [] c = ([], c)"
| "system_palette rnd ((t, v) # rest) c =
     (case generateElementId rnd c of
        (i, c1) \<Rightarrow>
          (case system_palette rnd rest c1 of
             (es, c2) \<Rightarrow> (\<lparr>pe_id = i, pe_title = t, pe_value = v\<rparr> # es, c2)))"

record page_settings =
  ps_template :: string
  custom_colors :: "palette_entry list"
  custom_fonts :: "palette_entry list"
  system_colors :: "palette_entry list"
  viewport_mobile :: "nat option"
  viewport_tablet :: "nat option"

text \<open>
  \<open>buildPageSettings\<close> together with \<open>buildResponsiveSettings\<close>. The \<open>custom_css\<close> text,
  which is built from the gradients of the scan at hand, is left out.
\<close>

definition buildPageSettings :: "(nat \<Rightarrow> rat) \<Rightarrow> bool \<Rightarrow> converter \<Rightarrow> page_settings \<times> converter" where
  "buildPageSettings rnd hasResponsiveLayouts c =
     (case palette rnd ''Color'' 0 (take 8 (globalColors c)) c of
        (cols, c1) \<Rightarrow>
          (case palette rnd ''Font'' 0 (take 6 (globalFonts c1)) c1 of
             (fnts, c2) \<Rightarrow>
               (case system_palette rnd
                       [(''Primary'', ''#6ec1e4''), (''Secondary'', ''#54595f''),
                        (''Text'', ''#7a7a7a''), (''Accent'', ''#61ce70'')] c2 of
                  (sys, c3) \<Rightarrow>
                    (\<lparr>ps_template = ''elementor_canvas'', custom_colors = cols, custom_fonts = fnts,
                      system_colors = sys,
                      viewport_mobile = (if hasResponsiveLayouts then Some 767 else None),
                      viewport_tablet = (if hasResponsiveLayouts then Some 1024 else None)\<rparr>,
                     c3))))"

definition countTotalElements :: "node list \<Rightarrow> nat" where
  "countTotalElements content_list =
     sum_list (map (\<lambda>section.
                      1 + sum_list (map (\<lambda>column. 1 + length (elements column)) (elements section)))
                   content_list)"

record metadata =
  source_url :: string
  md_fidelity_score :: rat
  verification_passed :: bool
  total_elements :: nat
  sections_count :: nat

record template =
  version :: string
  t_title :: string
  t_type :: string
  content :: "node list"
  t_page_settings :: page_settings
  t_metadata :: metadata

text \<open>
  The template object that \<open>convertVisualToElementor\<close> assembles before it cleans it
  (the creation time and the constant metadata strings are left out). The call changes the
  converter: the palette sets grow and identifiers are drawn.
\<close>

definition assembleTemplate ::
  "(nat \<Rightarrow> rat) \<Rightarrow> scanned_data \<Rightarrow> report option \<Rightarrow> converter \<Rightarrow> template \<times> converter" where
  "assembleTemplate rnd sd verificationReport c =
     (let c1 = extractGlobalAssets (assets sd) c
      in case buildElementorFromVisual rnd sd c1 of
           (content_list, c2) \<Rightarrow>
             (case buildPageSettings rnd (responsiveLayouts sd \<noteq> None) c2 of
                (ps, c3) \<Rightarrow>
                  (\<lparr>version = ''0.4'',
                    t_title = (case pageInfo sd of
                                 None \<Rightarrow> ''Cloned Page''
                               | Some p \<Rightarrow> or_else (title p) ''Cloned Page''),
                    t_type = ''page'',
                    content = content_list,
                    t_page_settings = ps,
                    t_metadata =
                      \<lparr>source_url = url sd,
                       md_fidelity_score = (case verificationReport of
                                              None \<Rightarrow> 0 | Some r \<Rightarrow> fidelityScore r),
                       verification_passed = (case verificationReport of
                                                None \<Rightarrow> False | Some r \<Rightarrow> passed r),
                       total_elements = countTotalElements content_list,
                       sections_count = length content_list\<rparr>\<rparr>,
                   c3)))"

text \<open>
  The converter of the route is created once, when the module is loaded, and serves every
  request: a sequence of conversions threads one converter object.
\<close>

fun serve ::
  "(nat \<Rightarrow> rat) \<Rightarrow> (scanned_data \<times> report option) list \<Rightarrow> converter \<Rightarrow> template list \<times> converter" where
  "serve rnd [] c = ([], c)"
| "serve rnd ((sd, r) # requests) c =
     (case assembleTemplate rnd sd r c of
        (t, c1) \<Rightarrow> (case serve rnd requests c1 of (ts, c2) \<Rightarrow> (t # ts, c2)))"

definition palette_values :: "template \<Rightarrow> string list \<times> string list" where
  "palette_values t =
     (map pe_value (custom_colors (t_page_settings t)), map pe_value (custom_fonts (t_page_settings t)))"

subsection \<open>The document as JSON and the cleaning passes\<close>

text \<open>
  The cleaning passes walk the template as a generic object. A JSON object is the list of
  its entries in insertion order.
\<close>

datatype json =
    JNull
  | JBool bool
  | JNum rat
  | JStr string
  | JArr "json list"
  | JObj "(string \<times> json) list"

definition skipped_key :: "string \<Rightarrow> bool" where
  "skipped_key k =
     (k = ''completeHTML'' \<or> k = ''fallback_html'' \<or> k = ''original_assets''
      \<or> k = ''outerHTML'' \<or> k = ''innerHTML'' \<or> k = ''styles''
      \<or> k = ''allAttributes'' \<or> k = ''data-*'' \<or> str_includes k ''HTML'')"

definition large_markup :: "json \<Rightarrow> bool" where
  "large_markup v = (case v of JStr s \<Rightarrow> length s > 1000 \<and> str_includes s ''<'' | _ \<Rightarrow> False)"

text \<open>
  \<open>cleanContent\<close>: entries with a skipped key are dropped, a string of more than 1000
  characters that contains \<open><\<close> is replaced by the placeholder, objects and arrays are
  cleaned recursively. In an array the keys are the indices, which are never skipped.
\<close>

fun cleanContent :: "json \<Rightarrow> json"
  and cleanEntries :: "(string \<times> json) list \<Rightarrow> (string \<times> json) list"
  and cleanItems :: "json list \<Rightarrow> json list"
  where
  "cleanContent (JObj kvs) = JObj (cleanEntries kvs)"
| "cleanContent (JArr vs) = JArr (cleanItems vs)"
| "cleanContent JNull = JNull"
| "cleanContent (JBool b) = JBool b"
| "cleanContent (JNum n) = JNum n"
| "cleanContent (JStr s) = JStr s"
| "cleanEntries [] = []"
| "cleanEntries ((k, v) # kvs) =
     (if skipped_key k then cleanEntries kvs
      else if large_markup v then (k, JStr ''<p>Optimized</p>'') # cleanEntries kvs
      else (k, cleanContent v) # cleanEntries kvs)"
| "cleanItems [] = []"
| "cleanItems (v # vs) =
     (if large_markup v then JStr ''<p>Optimized</p>'' # cleanItems vs
      else cleanContent v # cleanItems vs)"

definition validateAndCleanTemplate :: "json \<Rightarrow> json" where
  "validateAndCleanTemplate t = cleanContent t"


text \<open>
  The length of \<open>JSON.stringify\<close> of a document of ASCII strings. It is exact when every
  number of the document is an integer; the decimal expansion that JavaScript prints for
  another number is not modelled, and such a number counts as nothing.
\<close>

definition escaped_length :: "char \<Rightarrow> nat" where
  "escaped_length c =
     (if c = CHR 0x22 \<or> c = CHR 0x5C then 2
      else if (of_char c :: nat) < 32
      then (if (of_char c :: nat) \<in> set [8, 9, 10, 12, 13] then 2 else 6)
      else 1)"

definition string_length :: "string \<Rightarrow> nat" where
  "string_length s = 2 + sum_list (map escaped_length s)"

definition number_length :: "rat \<Rightarrow> nat" where
  "number_length q =
     (if rat_of_int \<lfloor>q\<rfloor> = q
      then (if q < 0 then 1 else 0) + length (show_nat (nat \<bar>\<lfloor>q\<rfloor>\<bar>))
      else 0)"

fun json_length :: "json \<Rightarrow> nat"
  and entries_length :: "(string \<times> json) list \<Rightarrow> nat"
  and items_length :: "json list \<Rightarrow> nat"
  where
  "json_length JNull = 4"
| "json_length (JBool b) = (if b then 4 else 5)"
| "json_length (JNum q) = number_length q"
| "json_length (JStr s) = string_length s"
| "json_length (JArr vs) = 2 + items_length vs + (length vs - 1)"
| "json_length (JObj kvs) = 2 + entries_length kvs + (length kvs - 1)"
| "entries_length [] = 0"
| "entries_length ((k, v) # kvs) = string_length k + 1 + json_length v + entries_length kvs"
| "items_length [] = 0"
| "items_length (v # vs) = json_length v + items_length vs"

text \<open>The template as the object the cleaning passes receive.\<close>

definition settings_json :: "settings \<Rightarrow> json" where
  "settings_json s =
     JObj ((case column_size s of
              None \<Rightarrow> []
            | Some w \<Rightarrow> [(''_column_size'', JNum (rat_of_int w)), (''_inline_size'', JNull)])
           @ (case element_id s of None \<Rightarrow> [] | Some e \<Rightarrow> [(''_element_id'', JStr e)])
           @ (case html s of None \<Rightarrow> [] | Some h \<Rightarrow> [(''html'', JStr h)])
           @ map (\<lambda>(k, v). (k, JStr v)) (content_fields s))"

fun node_json :: "node \<Rightarrow> json" where
  "node_json (Node i et wt s els) =
     JObj ((case i of None \<Rightarrow> [] | Some v \<Rightarrow> [(''id'', JStr v)])
           @ [(''elType'', JStr et)]
           @ (if wt \<noteq> [] then [(''widgetType'', JStr wt)] else [])
           @ [(''settings'', settings_json s)]
           @ (if et = ''widget'' \<and> els = [] then [] else [(''elements'', JArr (map node_json els))]))"

definition palette_json :: "string \<Rightarrow> palette_entry \<Rightarrow> json" where
  "palette_json value_key e =
     JObj ([(''_id'', JStr (pe_id e)), (''title'', JStr (pe_title e)), (value_key, JStr (pe_value e))]
           @ (if value_key = ''font_family'' then [(''font_weight'', JStr ''400'')] else []))"

definition template_json :: "template \<Rightarrow> json" where
  "template_json t =
     JObj [(''version'', JStr (version t)),
           (''title'', JStr (t_title t)),
           (''type'', JStr (t_type t)),
           (''content'', JArr (map node_json (content t))),
           (''page_settings'',
             JObj ([(''template'', JStr (ps_template (t_page_settings t))),
                    (''custom_colors'', JArr (map (palette_json ''color'') (custom_colors (t_page_settings t)))),
                    (''custom_fonts'', JArr (map (palette_json ''font_family'') (custom_fonts (t_page_settings t)))),
                    (''system_colors'', JArr (map (palette_json ''color'') (system_colors (t_page_settings t))))]
                   @ (case viewport_mobile (t_page_settings t) of
                        None \<Rightarrow> [] | Some n \<Rightarrow> [(''viewport_mobile'', JNum (rat_of_nat n))])
                   @ (case viewport_tablet (t_page_settings t) of
                        None \<Rightarrow> [] | Some n \<Rightarrow> [(''viewport_tablet'', JNum (rat_of_nat n))]))),
           (''metadata'',
             JObj [(''source_url'', JStr (source_url (t_metadata t))),
                   (''fidelity_score'', JNum (md_fidelity_score (t_metadata t))),
                   (''verification_passed'', JBool (verification_passed (t_metadata t))),
                   (''total_elements'', JNum (rat_of_nat (total_elements (t_metadata t)))),
                   (''sections_count'', JNum (rat_of_nat (sections_count (t_metadata t))))])]"

text \<open>\<open>compressHtml\<close>: white space runs to one blank, no blanks between tags, no comments.\<close>

function collapse_space :: "string \<Rightarrow> string" where
  "collapse_space [] = []"
| "collapse_space (c # cs) =
     (if is_space c then CHR '' '' # collapse_space (dropWhile is_space cs)
      else c # collapse_space cs)"
  by pat_completeness auto
termination
  by (relation "measure length") (auto simp add: length_dropWhile_le less_Suc_eq_le)

function close_gaps :: "string \<Rightarrow> string" where
  "close_gaps [] = []"
| "close_gaps (c # cs) =
     (let r = dropWhile is_space cs
      in if c = CHR ''>'' \<and> r \<noteq> cs \<and> r \<noteq> [] \<and> hd r = CHR ''<''
         then CHR ''>'' # CHR ''<'' # close_gaps (tl r)
         else c # close_gaps cs)"
  by pat_completeness auto
termination
proof (relation "measure length")
  show "wf (measure length)" by simp
next
  fix c :: char and cs r :: string
  assume "r = dropWhile is_space cs" and "c = CHR ''>'' \<and> r \<noteq> cs \<and> r \<noteq> [] \<and> hd r = CHR ''<''"
  then have "length (tl r) \<le> length cs"
    using length_dropWhile_le [of is_space cs] by simp
  then show "(tl r, c # cs) \<in> measure length" by simp
next
  fix c :: char and cs r :: string
  show "(cs, c # cs) \<in> measure length" by simp
qed

fun after_comment_end :: "string \<Rightarrow> string option" where
  "after_comment_end [] = None"
| "after_comment_end (c # cs) =
     (if prefix ''-->'' (c # cs) then Some (drop 3 (c # cs)) else after_comment_end cs)"

lemma after_comment_end_shorter: "after_comment_end s = Some r \<Longrightarrow> length r \<le> length s"
  by (induction s) (auto split: if_splits)

function remove_comments :: "string \<Rightarrow> string" where
  "remove_comments [] = []"
| "remove_comments (c # cs) =
     (if prefix ''<!--'' (c # cs)
      then (case after_comment_end (drop 4 (c # cs)) of
              Some r \<Rightarrow> remove_comments r
            | None \<Rightarrow> c # remove_comments cs)
      else c # remove_comments cs)"
  by pat_completeness auto
termination
proof (relation "measure length")
  show "wf (measure length)" by simp
next
  fix c :: char and cs r :: string
  assume "prefix ''<!--'' (c # cs)" and "after_comment_end (drop 4 (c # cs)) = Some r"
  then have "length r \<le> length (drop 4 (c # cs))"
    using after_comment_end_shorter by blast
  then show "(r, c # cs) \<in> measure length" by simp
next
  fix c :: char and cs :: string
  show "(cs, c # cs) \<in> measure length" by simp
next
  fix c :: char and cs :: string
  show "(cs, c # cs) \<in> measure length" by simp
qed

definition compressHtml :: "string \<Rightarrow> string" where
  "compressHtml h = trim (remove_comments (close_gaps (collapse_space h)))"

fun compressContent :: "json \<Rightarrow> json"
  and compressEntries :: "(string \<times> json) list \<Rightarrow> (string \<times> json) list"
  and compressItems :: "json list \<Rightarrow> json list"
  where
  "compressContent (JObj kvs) = JObj (compressEntries kvs)"
| "compressContent (JArr vs) = JArr (compressItems vs)"
| "compressContent (JStr s) =
     (if length s > 2000 \<and> str_includes s ''<'' then JStr (compressHtml s) else JStr s)"
| "compressContent JNull = JNull"
| "compressContent (JBool b) = JBool b"
| "compressContent (JNum n) = JNum n"
| "compressEntries [] = []"
| "compressEntries ((k, v) # kvs) = (k, compressContent v) # compressEntries kvs"
| "compressItems [] = []"
| "compressItems (v # vs) = compressContent v # compressItems vs"

definition truthy :: "json \<Rightarrow> bool" where
  "truthy v =
     (case v of
        JNull \<Rightarrow> False
      | JBool b \<Rightarrow> b
      | JNum q \<Rightarrow> q \<noteq> 0
      | JStr s \<Rightarrow> s \<noteq> []
      | JArr vs \<Rightarrow> True
      | JObj kvs \<Rightarrow> True)"

text \<open>
  The metadata that \<open>smartCleanTemplate\<close> keeps; a property that the old metadata does
  not have is \<open>undefined\<close> in the new one and is not part of the document.
\<close>

definition essential_metadata :: "json \<Rightarrow> json" where
  "essential_metadata m =
     (if \<not> truthy m then m
      else (let kvs = (case m of JObj entries \<Rightarrow> entries | _ \<Rightarrow> [])
            in JObj ((case map_of kvs ''created_at'' of None \<Rightarrow> [] | Some v \<Rightarrow> [(''created_at'', v)])
                     @ (case map_of kvs ''source_url'' of None \<Rightarrow> [] | Some v \<Rightarrow> [(''source_url'', v)])
                     @ [(''cloned_by'', JStr ''CloneMentor Pro - Smart Clean'')]
                     @ (case map_of kvs ''fidelity_score'' of
                          None \<Rightarrow> [] | Some v \<Rightarrow> [(''fidelity_score'', v)])
                     @ (case map_of kvs ''elementsCount'' of
                          None \<Rightarrow> [] | Some v \<Rightarrow> [(''elementsCount'', v)]))))"

definition smartCleanTemplate :: "json \<Rightarrow> json" where
  "smartCleanTemplate t =
     (case t of
        JObj kvs \<Rightarrow>
          compressContent
            (JObj (map (\<lambda>(k, v). if k = ''metadata'' then (k, essential_metadata v) else (k, v)) kvs))
      | other \<Rightarrow> compressContent other)"

text \<open>
  \<open>convertVisualToElementor\<close>. \<open>len\<close> stands for the length of \<open>JSON.stringify\<close> of the
  cleaned template.
\<close>

definition convertVisualToElementor ::
  "(json \<Rightarrow> nat) \<Rightarrow> (nat \<Rightarrow> rat) \<Rightarrow> scanned_data \<Rightarrow> report option \<Rightarrow> converter \<Rightarrow> json \<times> converter" where
  "convertVisualToElementor len rnd sd verificationReport c =
     (case assembleTemplate rnd sd verificationReport c of
        (t, c1) \<Rightarrow>
          (let validatedTemplate = validateAndCleanTemplate (template_json t);
               finalSize = len validatedTemplate
           in (if finalSize > 150000 then smartCleanTemplate validatedTemplate else validatedTemplate,
               c1)))"

section \<open>Scraper progress and the scan route\<close>

text \<open>
  The browser during one call of \<open>scrapeVisualLayout\<close>: whether \<open>initialize\<close> throws, how
  the navigation ends, and what follows it: the scan, or an error thrown after some of the
  progress events that come after the navigation have been sent.
\<close>

record scraper_env =
  s_launch :: "exn option"
  s_goto :: page_goto
  s_capture :: "(nat \<times> exn) + scanned_data"

definition after_navigation_events :: "progress list" where
  "after_navigation_events =
     [(''page_loaded'', 15), (''analyzing_layout'', 22), (''capturing_visual_structure'', 28),
      (''capturing_mobile'', 28 + 0 * rat_of_int \<lfloor>7 / 3 :: rat\<rfloor>),
      (''capturing_tablet'', 28 + 1 * rat_of_int \<lfloor>7 / 3 :: rat\<rfloor>),
      (''capturing_desktop'', 28 + 2 * rat_of_int \<lfloor>7 / 3 :: rat\<rfloor>),
      (''extracting_assets'', 42), (''processing_assets'', 58), (''building_structure_map'', 72),
      (''validating_structure'', 88), (''scraping_complete'', 95)]"

definition scrapeVisualLayout :: "scraper_env \<Rightarrow> progress list \<times> (exn + scanned_data)" where
  "scrapeVisualLayout env =
     (case s_launch env of
        Some e \<Rightarrow> ([], Inl e)
      | None \<Rightarrow>
          (let p = [(''connecting'', 2), (''loading_page'', 8)]
           in case snd (navigateScrape (s_goto env)) of
                Inl e \<Rightarrow> (p, Inl e)
              | Inr _ \<Rightarrow>
                  (case s_capture env of
                     Inl (k, e) \<Rightarrow> (p @ take k after_navigation_events, Inl e)
                   | Inr sd \<Rightarrow> (p @ after_navigation_events, Inr sd))))"

definition initial_checks_failed :: "scanned_data \<Rightarrow> nat" where
  "initial_checks_failed sd =
     (let hasContent =
            (case visualStructure sd of
               None \<Rightarrow> False
             | Some vs \<Rightarrow> vs_completeHTML vs \<noteq> [] \<or> vs_structure vs \<noteq> None
                          \<or> length (children (vs_self vs)) > 0);
          hasMinimumComplexity =
            ((case assets sd of
                None \<Rightarrow> False
              | Some a \<Rightarrow> (case images a of None \<Rightarrow> False | Some xs \<Rightarrow> length xs > 0))
             \<or> (case visualStructure sd of
                   None \<Rightarrow> False
                 | Some vs \<Rightarrow> (case vs_structure vs of
                                Some st \<Rightarrow> False
                              | None \<Rightarrow> length (children (vs_self vs)) > 1)));
          hasValidMetadata = (case pageInfo sd of None \<Rightarrow> False | Some p \<Rightarrow> title p \<noteq> [])
      in length (filter (\<lambda>ok. \<not> ok) [hasContent, hasMinimumComplexity, hasValidMetadata]))"

definition template_content :: "json \<Rightarrow> json list option" where
  "template_content t =
     (case t of
        JObj kvs \<Rightarrow> (case map_of kvs ''content'' of Some (JArr vs) \<Rightarrow> Some vs | _ \<Rightarrow> None)
      | _ \<Rightarrow> None)"

record scan_env =
  scraper :: scraper_env
  verifier :: verifier_env
  random :: "nat \<Rightarrow> rat"
  stringify_length :: "json \<Rightarrow> nat"

text \<open>
  The handler of \<open>POST /scan\<close> for a valid URL: the progress records passed to
  \<open>updateProgress\<close>, in order, and the converter after the request. The callbacks handed
  to the scraper and to the verifier cap and rescale the progress they are given.
\<close>

definition scan :: "scan_env \<Rightarrow> bool \<Rightarrow> converter \<Rightarrow> progress list \<times> converter" where
  "scan env skipVerification conv =
     (let p0 = [(''initializing_scan'', 1)]
      in case scrapeVisualLayout (scraper env) of
           (sp, scraped) \<Rightarrow>
             (let p1 = p0 @ map (\<lambda>(phase, pr). (phase, min pr 95)) sp
              in case scraped of
                   Inl e \<Rightarrow> (p1, conv)
                 | Inr scanned \<Rightarrow>
                     (let p2 = p1 @ [(''verifying_fidelity'', 96)]
                      in case verifyFidelity (verifier env) (Some scanned) of
                           (vp, verified) \<Rightarrow>
                             (let p3 = p2 @ map (\<lambda>(phase, pr). (phase, min (96 + pr * (1 / 100)) 97)) vp
                              in case verified of
                                   Inl e \<Rightarrow> (p3, conv)
                                 | Inr verificationReport \<Rightarrow>
                                     (let failedInitialChecks = initial_checks_failed scanned;
                                          shouldProceed =
                                            (skipVerification \<or> passed verificationReport
                                             \<or> (fidelityScore verificationReport \<ge> 4 / 10
                                                 \<and> failedInitialChecks \<le> 1));
                                          p4 = (if \<not> shouldProceed
                                                then p3 @ [(''verification_warning'', 90)] else p3)
                                      in if \<not> shouldProceed
                                            \<and> fidelityScore verificationReport < 3 / 10
                                            \<and> failedInitialChecks > 1
                                         then (p4, conv)
                                         else (let p5 = p4 @ [(''converting_to_elementor'', 97)]
                                               in case convertVisualToElementor (stringify_length env)
                                                         (random env) scanned
                                                         (Some verificationReport) conv of
                                                    (elementorTemplate, conv1) \<Rightarrow>
                                                      (let p6 = p5 @ [(''final_validation'', 98)];
                                                           hasSections =
                                                             (case template_content elementorTemplate of
                                                                None \<Rightarrow> False
                                                              | Some vs \<Rightarrow> length vs > 0)
                                                       in if \<not> hasSections
                                                          then (p6 @ [(''template_validation_failed'', 99)], conv1)
                                                          else (p6 @ [(''scan_complete_verified'', 100)],
                                                                conv1))))))))"

subsection \<open>Concrete scans\<close>

text \<open>
  A page without title and without images whose body holds one empty \<open>header\<close> of
  1200 by 80 pixels, as the scraper returns it: the element tree, and the pre-built
  structure in which the body and the header are both sections.
\<close>

definition header_layout :: layout where
  "header_layout =
     \<lparr>x = 0, y = 0, width = 1200, height = 80, position = ''static'', display = ''block'',
      backgroundColor = ''rgba(0, 0, 0, 0)'', border = ''0px none rgb(0, 0, 0)'',
      borderRadius = ''0px'', padding_top = ''0px'', padding_left = ''0px''\<rparr>"

definition blank_page :: element where
  "blank_page =
     Element [] ''body'' [] [] [] ''<body><header></header></body>'' no_attributes None
       [Element [] ''header'' [] [] [] ''<header></header>'' no_attributes (Some header_layout) []]"

definition blank_scan :: scanned_data where
  "blank_scan =
     \<lparr>url = ''https://example.org/blank'', visualData = None,
      visualStructure =
        Some \<lparr>vs_elementorStructure =
                 Some (Node None ''section'' []
                         \<lparr>column_size = None, element_id = None, html = None, content_fields = []\<rparr>
                         [Node None ''section'' []
                            \<lparr>column_size = None, element_id = None, html = None, content_fields = []\<rparr>
                            []]),
              vs_elements = [],
              vs_structure = Some blank_page,
              vs_completeHTML = ''<html><head></head><body><header></header></body></html>'',
              vs_self = no_element\<rparr>,
      responsiveLayouts = None,
      pageInfo = Some \<lparr>title = []\<rparr>,
      assets = Some \<lparr>images = Some [], fonts = Some [], colors = Some [], gradients = Some []\<rparr>\<rparr>"

text \<open>
  A request on that page: the scraper succeeds, the verifier reaches the page and then
  fails to take its screenshots.
\<close>

definition blank_request :: scan_env where
  "blank_request =
     \<lparr>scraper = \<lparr>s_launch = None, s_goto = (\<lambda>w t. None), s_capture = Inr blank_scan\<rparr>,
      verifier = \<lparr>launch = None, goto = (\<lambda>w t. None),
                  capture_after_navigation = Inl ''Protocol error (Page.captureScreenshot)'',
                  render_clone = Inl ''not reached''\<rparr>,
      random = (\<lambda>k. 0),
      stringify_length = json_length\<rparr>"

text \<open>
  The same page in the older shape of a scan, whose \<open>visualData\<close> property holds the
  element tree: no pre-built structure is found and the content is built by the raw walk.
\<close>

definition blank_scan_older :: scanned_data where
  "blank_scan_older =
     \<lparr>url = ''https://example.org/blank'',
      visualData = Some \<lparr>vs_elementorStructure = None, vs_elements = [],
                         vs_structure = Some blank_page, vs_completeHTML = [],
                         vs_self = no_element\<rparr>,
      visualStructure = None, responsiveLayouts = None,
      pageInfo = Some \<lparr>title = []\<rparr>, assets = None\<rparr>"

subsection \<open>Concrete columns and random values\<close>

text \<open>A column that holds one text widget.\<close>

definition text_column :: node where
  "text_column =
     Node (Some ''c0lumn01'') ''column'' []
       \<lparr>column_size = Some 100, element_id = None, html = None, content_fields = []\<rparr>
       [Node (Some ''w1dget01'') ''widget'' ''text-editor''
          \<lparr>column_size = None, element_id = Some ''e1ement1'', html = None,
           content_fields = [(''editor'', ''<p>Hello</p>'')]\<rparr> []]"

text \<open>Values of \<open>Math.random\<close> that repeat with period eight.\<close>

definition periodic_random :: "nat \<Rightarrow> rat" where
  "periodic_random k = rat_of_nat (k mod 8) / 36"

text \<open>A scan in which nothing was captured.\<close>

definition empty_scan :: scanned_data where
  "empty_scan =
     \<lparr>url = ''https://example.org/empty'', visualData = None, visualStructure = None,
      responsiveLayouts = None, pageInfo = None, assets = None\<rparr>"

definition valid_id :: "string \<Rightarrow> bool" where
  "valid_id s = (length s = 8 \<and> list_all (\<lambda>ch. is_lower ch \<or> is_digit ch) s)"

subsection \<open>Concrete documents\<close>



subsection \<open>Concrete requests\<close>

text \<open>Two scans that differ in the one colour they captured.\<close>

definition colour_scan :: "string \<Rightarrow> scanned_data" where
  "colour_scan colour =
     \<lparr>url = ''https://example.org/'', visualData = None, visualStructure = None,
      responsiveLayouts = None, pageInfo = None,
      assets = Some \<lparr>images = Some [], fonts = Some [], colors = Some [colour],
                      gradients = Some []\<rparr>\<rparr>"

subsection \<open>Shape of the content list\<close>

text \<open>
  A section of the content holds columns only, and a complete one holds at least one. A
  scan has no pre-built sections when the search finds no structure or one with no
  elements; the content is then built by the raw walk.
\<close>

definition columns_only :: "node \<Rightarrow> bool" where
  "columns_only n = (elType n = ''section'' \<longrightarrow> list_all (\<lambda>m. elType m = ''column'') (elements n))"

definition with_columns :: "node \<Rightarrow> bool" where
  "with_columns n =
     (elType n = ''section'' \<longrightarrow> elements n \<noteq> [] \<and> list_all (\<lambda>m. elType m = ''column'') (elements n))"

definition no_prebuilt :: "scanned_data \<Rightarrow> bool" where
  "no_prebuilt sd = (findElementorStructure sd = None \<or> findElementorStructure sd = Some [])"

definition constant_random :: "nat \<Rightarrow> rat" where
  "constant_random k = 0"

text \<open>
  A scan in the older shape, whose \<open>visualData\<close> property holds the element tree of a page
  with a heading and a paragraph in one \<open>section\<close> element.
\<close>

definition article_page :: element where
  "article_page =
     Element [] ''body'' [] [] [] [] no_attributes None
       [Element [] ''section'' [] [] [] [] no_attributes None
          [Element [] ''h1'' [] ''Title'' ''Title'' ''<h1>Title</h1>'' no_attributes None [],
           Element [] ''p'' [] ''Text'' ''Text'' ''<p>Text</p>'' no_attributes None []]]"

definition article_scan :: scanned_data where
  "article_scan =
     \<lparr>url = ''https://example.org/article'',
      visualData = Some \<lparr>vs_elementorStructure = None, vs_elements = [],
                         vs_structure = Some article_page, vs_completeHTML = [],
                         vs_self = no_element\<rparr>,
      visualStructure = None, responsiveLayouts = None,
      pageInfo = Some \<lparr>title = ''Article''\<rparr>, assets = None\<rparr>"

text \<open>
  Every node of a tree carries an \<open>id\<close> of eight lower-case letters or digits, and every
  widget an \<open>_element_id\<close> of that form.
\<close>

fun ids_valid :: "node \<Rightarrow> bool"
  and all_ids_valid :: "node list \<Rightarrow> bool"
  where
  "ids_valid (Node i et wt s els) =
     ((case i of None \<Rightarrow> False | Some v \<Rightarrow> valid_id v)
      \<and> (if et = ''widget''
          then (case element_id s of None \<Rightarrow> False | Some e \<Rightarrow> valid_id e) else True)
      \<and> all_ids_valid els)"
| "all_ids_valid [] = True"
| "all_ids_valid (n # ns) = (ids_valid n \<and> all_ids_valid ns)"

section \<open>Properties\<close>

subsection \<open>Overall score and verdict\<close>


lemma overall_cong:
  "visualScore a = visualScore b \<Longrightarrow> structuralScore a = structuralScore b
   \<Longrightarrow> responsiveScore a = responsiveScore b
   \<Longrightarrow> calculateOverallScore a = calculateOverallScore b"
  by (simp add: calculateOverallScore_def)



lemma fallback_overall:
  "fidelityScore (fallback_report e sd initial_report)
     = calculateOverallScore (fallback_report e sd initial_report)"
  by (auto simp add: fallback_report_def Let_def intro!: overall_cong)

lemma score_overall:
  "fidelityScore (score_report oc cc sd initial_report)
     = calculateOverallScore (score_report oc cc sd initial_report)"
  by (auto simp add: score_report_def Let_def intro!: overall_cong)

lemma fallback_scores:
  "(validateScannedContent sd \<longrightarrow>
      structuralScore (fallback_report e sd initial_report) = 25 / 100
      \<and> visualScore (fallback_report e sd initial_report) = 15 / 100
      \<and> responsiveScore (fallback_report e sd initial_report) = 20 / 100)
   \<and> (\<not> validateScannedContent sd \<longrightarrow>
      structuralScore (fallback_report e sd initial_report) = 10 / 100
      \<and> visualScore (fallback_report e sd initial_report) = 5 / 100
      \<and> responsiveScore (fallback_report e sd initial_report) = 10 / 100)"
  by (simp add: fallback_report_def Let_def)

text \<open>
  Once the browser is there, \<open>verifyFidelity\<close> returns the report of the \<open>catch\<close> block
  when a step throws and the report of the \<open>try\<close> block otherwise.
\<close>

lemma verify_cases:
  assumes "launch env = None"
  shows "(step_throws env sd
            \<and> (\<exists>e. snd (verifyFidelity env sd) = Inr (fallback_report e sd initial_report)))
       \<or> (\<not> step_throws env sd
            \<and> (\<exists>oc cc d. snd (verifyFidelity env sd) = Inr (score_report oc cc d initial_report)))"
  using assms
  by (auto simp add: verifyFidelity_def step_throws_def Let_def renderClonedStructure_def
      split: option.splits sum.splits)

lemma scanned_ok_valid: "validateScannedContent (Some scanned_ok)"
  by (simp add: validateScannedContent_def scanned_ok_def hasValidContent_def paragraph_page_def
      countElementsInStructure_def matches_type_def toLowerCase_def trim_def is_space_def
      is_upper_def no_attributes_def Let_def)




subsection \<open>Degradation of the verifier\<close>

text \<open>
  C3 (as amended). When the browser initialisation that precedes the guarded block
  succeeds, \<open>verifyFidelity\<close> returns a report. Its overall score is
  \<open>calculateOverallScore\<close> of its sub-scores, and when a verification step throws the
  sub-scores are structural \<open>0.25\<close>, visual \<open>0.15\<close>, responsive \<open>0.20\<close> if the content-quality
  predicate holds and \<open>0.10\<close>, \<open>0.05\<close>, \<open>0.10\<close> otherwise.
\<close>

theorem verifyFidelity_degrades:
  assumes "launch env = None"
  shows "\<exists>r. snd (verifyFidelity env sd) = Inr r
             \<and> fidelityScore r = calculateOverallScore r
             \<and> (step_throws env sd \<longrightarrow>
                  (if validateScannedContent sd
                   then structuralScore r = 25 / 100 \<and> visualScore r = 15 / 100
                        \<and> responsiveScore r = 20 / 100
                   else structuralScore r = 10 / 100 \<and> visualScore r = 5 / 100
                        \<and> responsiveScore r = 10 / 100))"
  using verify_cases [OF assms, of sd] fallback_scores
  by (auto simp add: fallback_overall score_overall)

text \<open>
  C3, witness: with a browser, an unreachable original host and a scan with content, a
  step throws and the report carries \<open>0.25\<close>, \<open>0.15\<close>, \<open>0.20\<close>.
\<close>

theorem verifyFidelity_degrades_witness:
  "launch env_unreachable = None \<and> step_throws env_unreachable (Some scanned_ok)
   \<and> validateScannedContent (Some scanned_ok)
   \<and> (\<exists>r. snd (verifyFidelity env_unreachable (Some scanned_ok)) = Inr r
           \<and> fidelityScore r = calculateOverallScore r
           \<and> structuralScore r = 25 / 100 \<and> visualScore r = 15 / 100
           \<and> responsiveScore r = 20 / 100)"
proof -
  have l: "launch env_unreachable = None" by (simp add: env_unreachable_def)
  have t: "step_throws env_unreachable (Some scanned_ok)"
    by (simp add: step_throws_def env_unreachable_def captureOriginalSite_def navigateOriginal_def)
  show ?thesis
    using verifyFidelity_degrades [OF l, of "Some scanned_ok"] l t scanned_ok_valid by auto
qed

text \<open>
  C3, counterexample to the claim as stated: when the browser does not start,
  \<open>verifyFidelity\<close> throws the launch error and returns no report.
\<close>

theorem verifyFidelity_throws_counterexample:
  "verifyFidelity env_no_browser (Some scanned_ok)
     = ([], Inl ''Failed to launch the browser process'')"
  by (simp add: verifyFidelity_def env_no_browser_def)

subsection \<open>Boundary cases of the scoring functions\<close>







subsection \<open>Navigation\<close>

text \<open>
  The verifier's capture tries the three strategies in order and stops at the first that
  succeeds; when all three fail it throws the error of the third.
\<close>

lemma navigateOriginal_cascade:
  "navigateOriginal g =
     (if g [NetworkIdle0] 60000 = None then ([Goto [NetworkIdle0] 60000], Inr ())
      else if g [NetworkIdle2] 45000 = None
      then ([Goto [NetworkIdle0] 60000, Goto [NetworkIdle2] 45000], Inr ())
      else if g [DomContentLoaded] 30000 = None
      then ([Goto [NetworkIdle0] 60000, Goto [NetworkIdle2] 45000,
             Goto [DomContentLoaded] 30000, Settle 3000], Inr ())
      else ([Goto [NetworkIdle0] 60000, Goto [NetworkIdle2] 45000,
             Goto [DomContentLoaded] 30000], Inl (the (g [DomContentLoaded] 30000))))"
  by (auto simp add: navigateOriginal_def split: option.splits)

text \<open>
  C7, the scraper at the failing input: on a page that keeps one connection open,
  \<open>scrapeVisualLayout\<close> makes one navigation attempt and throws its error, where the
  verifier's \<open>captureOriginalSite\<close> goes on to the second strategy and succeeds.
\<close>

theorem scrape_single_attempt:
  "navigateScrape goto_polling
     = ([Goto [NetworkIdle0, DomContentLoaded] 30000], Inl ''Navigation timeout exceeded'')
   \<and> navigateOriginal goto_polling
     = ([Goto [NetworkIdle0] 60000, Goto [NetworkIdle2] 45000], Inr ())"
  by (simp add: navigateScrape_def navigateOriginal_def goto_polling_def)

subsection \<open>Column widths\<close>

lemma allocate_length: "length (allocate t u ws) = length ws"
  by (induction t u ws rule: allocate.induct) (simp_all add: Let_def)

lemma allocate_sum: "ws \<noteq> [] \<Longrightarrow> sum_list (allocate t u ws) = 100 - u"
  by (induction t u ws rule: allocate.induct) (simp_all add: Let_def)

lemma allocate_clamped: "list_all (\<lambda>w. 15 \<le> w \<and> w \<le> 70) (butlast (allocate t u ws))"
  by (induction t u ws rule: allocate.induct) (simp_all add: Let_def)

lemma allocate_not_Nil: "ws \<noteq> [] \<Longrightarrow> allocate t u ws \<noteq> []"
  using allocate_length [of t u ws] by auto

lemma column_size_set: "column_size (settings (set_column_size col w)) = Some w"
  by (simp add: set_column_size_def)

lemma sizes_of_zip:
  "length cols = length ws
   \<Longrightarrow> map (\<lambda>c. column_size (settings c)) (map (\<lambda>(col, w). set_column_size col w) (zip cols ws))
       = map Some ws"
  by (induction cols ws rule: list_induct2) (simp_all add: column_size_set)

text \<open>
  C1 (as amended). When the width allocation runs on two or more columns, the columns'
  \<open>_column_size\<close> values sum to exactly 100, every column but the last has a value in
  \<open>[15, 70]\<close>, and the last column has 100 minus the sum of the others.
\<close>

theorem column_widths:
  assumes "length columns \<ge> 2"
  shows "\<exists>ws. map (\<lambda>c. column_size (settings c)) (calculateIntelligentColumnWidths columns)
                = map Some ws
              \<and> length ws = length columns
              \<and> sum_list ws = 100
              \<and> list_all (\<lambda>w. 15 \<le> w \<and> w \<le> 70) (butlast ws)
              \<and> last ws = 100 - sum_list (butlast ws)"
proof -
  define weights where "weights = map contentWeight columns"
  define ws where "ws = allocate (sum_list weights) 0 weights"
  have ne: "weights \<noteq> []" using assms by (auto simp add: weights_def)
  have len: "length ws = length columns"
    by (simp add: ws_def weights_def allocate_length)
  have out: "calculateIntelligentColumnWidths columns
               = map (\<lambda>(col, w). set_column_size col w) (zip columns ws)"
    using assms by (simp add: calculateIntelligentColumnWidths_def Let_def ws_def weights_def)
  have sizes: "map (\<lambda>c. column_size (settings c)) (calculateIntelligentColumnWidths columns)
                 = map Some ws"
    using sizes_of_zip [of columns ws] len out by simp
  have total: "sum_list ws = 100"
    using allocate_sum [OF ne, of "sum_list weights" 0] by (simp add: ws_def)
  have clamped: "list_all (\<lambda>w. 15 \<le> w \<and> w \<le> 70) (butlast ws)"
    by (simp add: ws_def allocate_clamped)
  have "ws \<noteq> []" using ne by (simp add: ws_def allocate_not_Nil)
  then have "sum_list ws = sum_list (butlast ws) + last ws"
    by (metis append_butlast_last_id sum_list.Cons sum_list.Nil sum_list_append add.right_neutral)
  then have "last ws = 100 - sum_list (butlast ws)" using total by simp
  then show ?thesis using sizes len total clamped by blast
qed

text \<open>C1, witness: two columns of one text widget each get 50 and 50.\<close>

theorem column_widths_witness:
  "length [text_column, text_column] \<ge> 2
   \<and> map (\<lambda>c. column_size (settings c)) (calculateIntelligentColumnWidths [text_column, text_column])
       = [Some 50, Some 50]
   \<and> (\<exists>ws. map (\<lambda>c. column_size (settings c))
               (calculateIntelligentColumnWidths [text_column, text_column]) = map Some ws
            \<and> sum_list ws = 100 \<and> list_all (\<lambda>w. 15 \<le> w \<and> w \<le> 70) (butlast ws))"
proof -
  have l: "length [text_column, text_column] \<ge> 2" by simp
  have w: "contentWeight text_column = 6 / 5"
    by (simp add: contentWeight_def text_column_def Let_def)
  have f: "\<lfloor>(101 / 2 :: rat)\<rfloor> = 50"
    by (simp add: floor_eq_iff)
  have e: "map (\<lambda>c. column_size (settings c)) (calculateIntelligentColumnWidths [text_column, text_column])
             = [Some 50, Some 50]"
    by (simp add: calculateIntelligentColumnWidths_def Let_def w js_round_def column_size_set f)
  from column_widths [OF l]
  have "\<exists>ws. map (\<lambda>c. column_size (settings c))
               (calculateIntelligentColumnWidths [text_column, text_column]) = map Some ws
            \<and> sum_list ws = 100 \<and> list_all (\<lambda>w. 15 \<le> w \<and> w \<le> 70) (butlast ws)"
    by blast
  then show ?thesis using l e by blast
qed

text \<open>
  C1, counterexample to the claim as stated: of seven columns of one text widget each, six
  get the minimum 15 and the last gets the remaining 10, which is below 15.
\<close>

theorem last_column_counterexample:
  "map (\<lambda>c. column_size (settings c)) (calculateIntelligentColumnWidths (replicate 7 text_column))
     = [Some 15, Some 15, Some 15, Some 15, Some 15, Some 15, Some 10]
   \<and> (10 :: int) < 15"
proof -
  have w: "contentWeight text_column = 6 / 5"
    by (simp add: contentWeight_def text_column_def Let_def)
  have r: "replicate 7 text_column
             = [text_column, text_column, text_column, text_column, text_column, text_column,
                text_column]"
    by (simp add: numeral_eq_Suc)
  have f: "\<lfloor>(207 / 14 :: rat)\<rfloor> = 14"
    by (simp add: floor_eq_iff)
  show ?thesis
    unfolding r
    by (simp add: calculateIntelligentColumnWidths_def Let_def w js_round_def column_size_set f)
qed

subsection \<open>Identifiers\<close>

lemma chars_valid: "list_all (\<lambda>ch. is_lower ch \<or> is_digit ch) chars"
  by (simp add: chars_def is_lower_def is_digit_def)

lemma chars_length: "length chars = 36"
  by (simp add: chars_def)

lemma chars_distinct: "distinct chars"
  by (simp add: chars_def)

lemma charAt_chars:
  assumes "0 \<le> q" and "q < 1"
  shows "\<exists>ch. charAt chars \<lfloor>q * rat_of_nat (length chars)\<rfloor> = [ch] \<and> (is_lower ch \<or> is_digit ch)"
proof -
  have lo: "0 \<le> \<lfloor>q * 36\<rfloor>" using assms by simp
  have "q * 36 < 36" using assms by simp
  then have hi: "\<lfloor>q * 36\<rfloor> < 36" by (simp add: floor_less_iff)
  note hi
  have n: "nat \<lfloor>q * 36\<rfloor> < length chars"
    unfolding chars_length using lo hi by linarith
  then have "is_lower (chars ! nat \<lfloor>q * 36\<rfloor>) \<or> is_digit (chars ! nat \<lfloor>q * 36\<rfloor>)"
    using chars_valid by (simp add: list_all_length)
  then show ?thesis using lo n by (simp add: charAt_def chars_length)
qed

lemma concat_singletons:
  assumes "\<And>v. v \<in> set vs \<Longrightarrow> \<exists>ch. f v = [ch] \<and> P ch"
  shows "length (concat (map f vs)) = length vs \<and> list_all P (concat (map f vs))"
  using assms
proof (induction vs)
  case Nil
  then show ?case by simp
next
  case (Cons v vs)
  then obtain ch where "f v = [ch]" and "P ch" by (meson list.set_intros(1))
  moreover have "length (concat (map f vs)) = length vs \<and> list_all P (concat (map f vs))"
    using Cons by simp
  ultimately show ?case by simp
qed

lemma generated_id_valid:
  assumes "\<And>k. 0 \<le> rnd k \<and> rnd k < 1"
  shows "valid_id (fst (generateElementId rnd c))"
proof -
  have "length (concat (map (\<lambda>i. charAt chars \<lfloor>rnd (draws c + i) * rat_of_nat (length chars)\<rfloor>) [0..<8]))
          = length [0..<8]
        \<and> list_all (\<lambda>ch. is_lower ch \<or> is_digit ch)
             (concat (map (\<lambda>i. charAt chars \<lfloor>rnd (draws c + i) * rat_of_nat (length chars)\<rfloor>) [0..<8]))"
    by (rule concat_singletons) (use assms charAt_chars in blast)
  then show ?thesis by (simp add: valid_id_def generateElementId_def)
qed

lemma upt_eight: "[0..<8] = [0, 1, 2, 3, 4, 5, 6, 7]"
  by (simp add: upt_rec)

lemma periodic_id_first:
  "generateElementId periodic_random \<lparr>globalColors = [], globalFonts = [], draws = 0\<rparr>
     = (''abcdefgh'', \<lparr>globalColors = [], globalFonts = [], draws = 8\<rparr>)"
  by (simp add: generateElementId_def periodic_random_def charAt_def chars_def upt_eight)

lemma periodic_id_second:
  "generateElementId periodic_random \<lparr>globalColors = [], globalFonts = [], draws = 8\<rparr>
     = (''abcdefgh'', \<lparr>globalColors = [], globalFonts = [], draws = 16\<rparr>)"
  by (simp add: generateElementId_def periodic_random_def charAt_def chars_def upt_eight)

subsection \<open>The cleaning pass\<close>








subsection \<open>Palettes across requests\<close>

lemma generate_keeps_palette:
  "globalColors (snd (generateElementId rnd c)) = globalColors c"
  "globalFonts (snd (generateElementId rnd c)) = globalFonts c"
  by (simp_all add: generateElementId_def)

lemma palette_values_of:
  "map pe_value (fst (palette rnd label k vs c)) = vs"
  by (induction vs arbitrary: k c) (simp_all add: case_prod_beta)

lemma palette_keeps_palette:
  "globalColors (snd (palette rnd label k vs c)) = globalColors c
   \<and> globalFonts (snd (palette rnd label k vs c)) = globalFonts c"
  by (induction vs arbitrary: k c) (simp_all add: case_prod_beta generate_keeps_palette)

lemma default_section_keeps_palette:
  "globalColors (snd (createDefaultSection rnd c)) = globalColors c
   \<and> globalFonts (snd (createDefaultSection rnd c)) = globalFonts c"
  by (simp add: createDefaultSection_def createDefaultColumn_def case_prod_beta
      generate_keeps_palette)

lemma colour_scan_content:
  "buildElementorFromVisual rnd (colour_scan colour) c
     = ([fst (createDefaultSection rnd c)], snd (createDefaultSection rnd c))"
  by (simp add: buildElementorFromVisual_def findElementorStructure_def colour_scan_def
      walk_sections_def actualStructure_def case_prod_beta createDefaultSection_def
      createDefaultColumn_def)

lemma colour_scan_palette:
  "palette_values (fst (assembleTemplate rnd (colour_scan colour) r c))
     = (take 8 (globalColors (extractGlobalAssets (assets (colour_scan colour)) c)),
        take 6 (globalFonts (extractGlobalAssets (assets (colour_scan colour)) c)))"
  by (simp add: palette_values_def assembleTemplate_def buildPageSettings_def Let_def
      case_prod_beta colour_scan_content palette_values_of palette_keeps_palette
      default_section_keeps_palette)

lemma colour_scan_converter:
  "globalColors (snd (assembleTemplate rnd (colour_scan colour) r c))
     = globalColors (extractGlobalAssets (assets (colour_scan colour)) c)"
  by (simp add: assembleTemplate_def buildPageSettings_def Let_def
      case_prod_beta colour_scan_content palette_keeps_palette default_section_keeps_palette
      generate_keeps_palette)

lemma extract_colour:
  "extractGlobalAssets (assets (colour_scan colour)) c
     = c\<lparr>globalColors :=
           (if colour \<noteq> [] \<and> colour \<noteq> ''transparent'' \<and> colour \<noteq> ''rgba(0, 0, 0, 0)''
            then set_add colour (globalColors c) else globalColors c)\<rparr>"
  by (simp add: extractGlobalAssets_def colour_scan_def)

text \<open>
  C8, the converter at the failing input: a scan that captured only blue, converted by a
  fresh converter, gets the palette blue; converted by the converter of the route after a
  scan that captured only red, it gets the palette red and blue, and both colours stay in
  the converter after the response.
\<close>

theorem palette_leaks_between_requests:
  "palette_values (fst (assembleTemplate rnd (colour_scan ''rgb(0, 0, 255)'') None new_converter))
     = ([''rgb(0, 0, 255)''], [])
   \<and> map palette_values
         (fst (serve rnd [(colour_scan ''rgb(255, 0, 0)'', None),
                          (colour_scan ''rgb(0, 0, 255)'', None)] new_converter))
     = [([''rgb(255, 0, 0)''], []), ([''rgb(255, 0, 0)'', ''rgb(0, 0, 255)''], [])]
   \<and> globalColors
         (snd (serve rnd [(colour_scan ''rgb(255, 0, 0)'', None),
                          (colour_scan ''rgb(0, 0, 255)'', None)] new_converter))
     = [''rgb(255, 0, 0)'', ''rgb(0, 0, 255)'']"
proof -
  define c1 where "c1 = snd (assembleTemplate rnd (colour_scan ''rgb(255, 0, 0)'') None new_converter)"
  define c2 where "c2 = snd (assembleTemplate rnd (colour_scan ''rgb(0, 0, 255)'') None c1)"
  have g1: "globalColors c1 = [''rgb(255, 0, 0)'']"
    by (simp add: c1_def colour_scan_converter extract_colour new_converter_def set_add_def)
  have f1: "globalFonts c1 = []"
    by (simp add: c1_def assembleTemplate_def buildPageSettings_def Let_def case_prod_beta
        colour_scan_content palette_keeps_palette default_section_keeps_palette
        generate_keeps_palette extract_colour new_converter_def)
  have g2: "globalColors c2 = [''rgb(255, 0, 0)'', ''rgb(0, 0, 255)'']"
    by (simp add: c2_def colour_scan_converter extract_colour g1 set_add_def)
  have a: "palette_values (fst (assembleTemplate rnd (colour_scan ''rgb(0, 0, 255)'') None new_converter))
             = ([''rgb(0, 0, 255)''], [])"
    by (simp add: colour_scan_palette extract_colour new_converter_def set_add_def)
  have b: "palette_values (fst (assembleTemplate rnd (colour_scan ''rgb(255, 0, 0)'') None new_converter))
             = ([''rgb(255, 0, 0)''], [])"
    by (simp add: colour_scan_palette extract_colour new_converter_def set_add_def)
  have c: "palette_values (fst (assembleTemplate rnd (colour_scan ''rgb(0, 0, 255)'') None c1))
             = ([''rgb(255, 0, 0)'', ''rgb(0, 0, 255)''], [])"
    by (simp add: colour_scan_palette extract_colour g1 f1 set_add_def)
  have s: "serve rnd [(colour_scan ''rgb(255, 0, 0)'', None),
                      (colour_scan ''rgb(0, 0, 255)'', None)] new_converter
             = ([fst (assembleTemplate rnd (colour_scan ''rgb(255, 0, 0)'') None new_converter),
                 fst (assembleTemplate rnd (colour_scan ''rgb(0, 0, 255)'') None c1)], c2)"
    by (simp add: case_prod_beta c1_def c2_def)
  show ?thesis unfolding s using a b c g2 by simp
qed

subsection \<open>Progress of a scan request\<close>

lemma cleanItems_length: "length (cleanItems vs) = length vs"
  by (induction vs) simp_all

lemma compressItems_length: "length (compressItems vs) = length vs"
  by (induction vs) simp_all

lemma cleaned_content:
  "template_content (validateAndCleanTemplate (template_json t))
     = Some (cleanItems (map node_json (content t)))"
  by (simp add: template_content_def validateAndCleanTemplate_def template_json_def
      skipped_key_def large_markup_def)

lemma smart_cleaned_content:
  "template_content (smartCleanTemplate (validateAndCleanTemplate (template_json t)))
     = Some (compressItems (cleanItems (map node_json (content t))))"
  by (simp add: template_content_def validateAndCleanTemplate_def template_json_def
      skipped_key_def large_markup_def smartCleanTemplate_def)

text \<open>Neither cleaning pass changes the number of top-level nodes of the document.\<close>

lemma converted_content_length:
  "\<exists>vs. template_content (fst (convertVisualToElementor len rnd sd r c)) = Some vs
        \<and> length vs = length (content (fst (assembleTemplate rnd sd r c)))"
  by (simp add: convertVisualToElementor_def Let_def case_prod_beta cleaned_content
      smart_cleaned_content cleanItems_length compressItems_length)

lemma blank_scrape:
  "scrapeVisualLayout (scraper blank_request)
     = ([(''connecting'', 2), (''loading_page'', 8)] @ after_navigation_events, Inr blank_scan)"
  by (simp add: scrapeVisualLayout_def blank_request_def navigateScrape_def)

lemma blank_invalid: "\<not> validateScannedContent (Some blank_scan)"
  by (simp add: validateScannedContent_def blank_scan_def hasValidContent_def blank_page_def
      countElementsInStructure_def matches_type_def toLowerCase_def trim_def is_space_def
      is_upper_def no_attributes_def Let_def)

lemma blank_verify:
  "verifyFidelity (verifier blank_request) (Some blank_scan)
     = ([(''preparing_verification'', 5), (''capturing_original'', 20)],
        Inr \<lparr>fidelityScore = 1 / 2, responsiveScore = 1 / 10, visualScore = 1 / 20,
             structuralScore = 1 / 10, passed = False,
             error = Some ''Protocol error (Page.captureScreenshot)'',
             details = FallbackDetails ''Verification failed with insufficient content captured''\<rparr>)"
  using blank_invalid
  by (simp add: verifyFidelity_def blank_request_def captureOriginalSite_def navigateOriginal_def
      fallback_report_def initial_report_def calculateOverallScore_def Let_def)

lemma blank_checks: "initial_checks_failed blank_scan = 2"
  by (simp add: initial_checks_failed_def blank_scan_def Let_def)

lemma blank_content:
  "fst (buildElementorFromVisual rnd blank_scan c)
     = [Node None ''section'' []
          \<lparr>column_size = None, element_id = None, html = None, content_fields = []\<rparr> []]"
  by (simp add: buildElementorFromVisual_def findElementorStructure_def find_in_structure_def
      blank_scan_def)

lemma blank_has_sections:
  "(case template_content (fst (convertVisualToElementor len rnd blank_scan r c)) of
      None \<Rightarrow> False | Some vs \<Rightarrow> length vs > 0)"
proof -
  have "length (content (fst (assembleTemplate rnd blank_scan r c))) = 1"
    by (simp add: assembleTemplate_def Let_def case_prod_beta blank_content)
  then show ?thesis
    using converted_content_length [of len rnd blank_scan r c] by auto
qed

text \<open>
  C9, the route at the failing input: for a page without title and images whose
  verification fails after the scrape, the progress delivered to the callback climbs to
  96.2, drops to 90 at the verification warning, and then goes on to 97, 98 and 100.
\<close>

theorem progress_drops_at_verification_warning:
  "map snd (fst (scan blank_request False new_converter))
     = [1, 2, 8, 15, 22, 28, 28, 30, 32, 42, 58, 72, 88, 95, 96, 1921 / 20, 481 / 5,
        90, 97, 98, 100]
   \<and> \<not> sorted (map snd (fst (scan blank_request False new_converter)))"
proof -
  have f: "\<lfloor>7 / 3 :: rat\<rfloor> = 2" by (simp add: floor_eq_iff)
  have e: "map snd (fst (scan blank_request False new_converter))
     = [1, 2, 8, 15, 22, 28, 28, 30, 32, 42, 58, 72, 88, 95, 96, 1921 / 20, 481 / 5,
        90, 97, 98, 100]"
    using blank_has_sections [of "stringify_length blank_request" "random blank_request"
        "Some \<lparr>fidelityScore = 1 / 2, responsiveScore = 1 / 10, visualScore = 1 / 20,
             structuralScore = 1 / 10, passed = False,
             error = Some ''Protocol error (Page.captureScreenshot)'',
             details = FallbackDetails ''Verification failed with insufficient content captured''\<rparr>"
        new_converter]
    by (simp add: scan_def blank_scrape blank_verify blank_checks Let_def case_prod_beta
        after_navigation_events_def f split: option.splits)
  show ?thesis unfolding e by simp
qed

subsection \<open>Sections and their columns\<close>

lemma createColumn_type: "elType (fst (createColumn rnd c)) = ''column''"
  by (simp add: createColumn_def case_prod_beta)

lemma createDefaultColumn_type: "elType (fst (createDefaultColumn rnd c)) = ''column''"
  by (simp add: createDefaultColumn_def case_prod_beta)

lemma set_elements_fields:
  "elType (set_elements n els) = elType n" "elements (set_elements n els) = els"
  by (simp_all add: set_elements_def)

lemma set_column_size_type: "elType (set_column_size col w) = elType col"
  by (simp add: set_column_size_def)

lemma make_column_columns: "list_all (\<lambda>m. elType m = ''column'') (fst (make_column rnd cur c))"
  by (simp add: make_column_def case_prod_beta set_elements_fields createColumn_type)

lemma column_steps_columns:
  "list_all (\<lambda>m. elType m = ''column'') columns
   \<Longrightarrow> list_all (\<lambda>m. elType m = ''column'') (fst (foldl (column_step rnd la) (columns, cur, c) chs))"
proof (induction chs arbitrary: columns cur c)
  case Nil
  then show ?case by simp
next
  case (Cons child chs)
  show ?case
  proof (cases "shouldStartNewColumn child cur la \<and> length cur > 0")
    case True
    have "list_all (\<lambda>m. elType m = ''column'') (columns @ fst (make_column rnd cur c))"
      using Cons.prems make_column_columns by simp
    then show ?thesis
      using True Cons.IH [of "columns @ fst (make_column rnd cur c)" "[child]"
          "snd (make_column rnd cur c)"]
      by (simp add: column_step_def case_prod_beta)
  next
    case False
    then show ?thesis
      using Cons.IH [OF Cons.prems, of "cur @ [child]" c]
      by (auto simp add: column_step_def)
  qed
qed

lemma zip_sizes_columns:
  "list_all (\<lambda>m. elType m = ''column'') cols
   \<Longrightarrow> list_all (\<lambda>m. elType m = ''column'') (map (\<lambda>(col, w). set_column_size col w) (zip cols ws))"
proof (induction cols arbitrary: ws)
  case Nil
  then show ?case by simp
next
  case (Cons col cols)
  then show ?case by (cases ws) (simp_all add: set_column_size_type)
qed

lemma widths_columns:
  "list_all (\<lambda>m. elType m = ''column'') cols
   \<Longrightarrow> list_all (\<lambda>m. elType m = ''column'') (calculateIntelligentColumnWidths cols)"
proof -
  assume a: "list_all (\<lambda>m. elType m = ''column'') cols"
  show ?thesis
  proof (cases cols)
    case Nil
    then show ?thesis by (simp add: calculateIntelligentColumnWidths_def)
  next
    case (Cons col rest)
    then show ?thesis
      using a zip_sizes_columns [OF a]
      by (simp add: calculateIntelligentColumnWidths_def Let_def set_column_size_type)
  qed
qed

lemma widths_not_empty: "cols \<noteq> [] \<Longrightarrow> calculateIntelligentColumnWidths cols \<noteq> []"
  using allocate_length [of "sum_list (map contentWeight cols)" 0 "map contentWeight cols"]
  by (cases cols) (auto simp add: calculateIntelligentColumnWidths_def Let_def)

text \<open>A section's children always yield at least one column, and only columns.\<close>

lemma createColumnsFromChildren_columns:
  "fst (createColumnsFromChildren rnd chs c) \<noteq> []
   \<and> list_all (\<lambda>m. elType m = ''column'') (fst (createColumnsFromChildren rnd chs c))"
proof (cases "length chs = 0")
  case True
  then show ?thesis
    by (simp add: createColumnsFromChildren_def case_prod_beta createDefaultColumn_type)
next
  case False
  define la where "la = analyzeChildrenLayout chs"
  define st where "st = foldl (column_step rnd la) ([], [], c) chs"
  define columns2 where
    "columns2 = (if length (fst (snd st)) > 0
                 then fst st @ fst (make_column rnd (fst (snd st)) (snd (snd st)))
                 else fst st)"
  have s: "list_all (\<lambda>m. elType m = ''column'') (fst st)"
    using column_steps_columns [of "[]" rnd la "[]" c chs] by (simp add: st_def)
  have c2: "list_all (\<lambda>m. elType m = ''column'') columns2"
    using s make_column_columns by (simp add: columns2_def)
  have r: "fst (createColumnsFromChildren rnd chs c)
             = (if length columns2 = 0 then [fst (createDefaultColumn rnd (if length (fst (snd st)) > 0
                                         then snd (make_column rnd (fst (snd st)) (snd (snd st)))
                                         else snd (snd st)))]
                else calculateIntelligentColumnWidths columns2)"
    using False
    by (simp add: createColumnsFromChildren_def Let_def case_prod_beta la_def st_def columns2_def)
  show ?thesis
  proof (cases "length columns2 = 0")
    case True
    then show ?thesis using r by (simp add: createDefaultColumn_type)
  next
    case False
    then have "columns2 \<noteq> []" by simp
    then show ?thesis
      using r False widths_not_empty [of columns2] widths_columns [OF c2] by simp
  qed
qed

lemma createWidget_type: "fst (createWidget rnd el c) = Some w \<Longrightarrow> elType w = ''widget''"
  by (auto simp add: createWidget_def widget_def case_prod_beta split: option.splits)

lemma createSection_fields:
  "elType (fst (createSection rnd el c)) = ''section''" "elements (fst (createSection rnd el c)) = []"
  by (simp_all add: createSection_def case_prod_beta)

lemma processElement_columns_only:
  "list_all columns_only (opt_list (fst (processElement rnd pt depth el c)))"
proof (cases el)
  case (Element cs tn cn tc ih oh ats lay ch)
  show ?thesis
  proof (cases "determineElementorType el pt")
    case TSection
    then show ?thesis
      using Element createColumnsFromChildren_columns [of rnd ch]
      by (simp add: opt_list_def columns_only_def case_prod_beta set_elements_fields
          createSection_fields)
  next
    case TColumn
    then show ?thesis
      using Element
      by (simp add: opt_list_def columns_only_def case_prod_beta set_elements_fields
          createColumn_type)
  next
    case TWidget
    then show ?thesis
      using Element createWidget_type [of rnd el c]
      by (auto simp add: opt_list_def columns_only_def split: option.splits)
  qed
qed

lemma processChildren_columns_only:
  "list_all columns_only (fst (processChildren rnd pt depth es c))"
proof (induction es arbitrary: c)
  case Nil
  then show ?case by simp
next
  case (Cons e es)
  then show ?case
    using processElement_columns_only [of rnd pt depth e c]
    by (simp add: case_prod_beta)
qed

lemma ensure_columns_with_columns:
  "list_all columns_only xs \<Longrightarrow> list_all with_columns (fst (ensure_columns rnd xs c))"
proof (induction xs arbitrary: c)
  case Nil
  then show ?case by simp
next
  case (Cons n xs)
  then show ?case
    by (auto simp add: case_prod_beta columns_only_def with_columns_def set_elements_fields
        createDefaultColumn_type)
qed

lemma ensure_columns_length: "length (fst (ensure_columns rnd xs c)) = length xs"
  by (induction xs arbitrary: c) (simp_all add: case_prod_beta)

lemma walk_columns_only: "list_all columns_only (fst (walk_sections rnd sd c))"
  using processChildren_columns_only processElement_columns_only
  by (auto simp add: walk_sections_def case_prod_beta split: option.splits)

lemma default_section_fields:
  "elType (fst (createDefaultSection rnd c)) = ''section''"
  "elements (fst (createDefaultSection rnd c))
     = [fst (createDefaultColumn rnd (snd (generateElementId rnd c)))]"
  "elements (fst (createDefaultColumn rnd c')) = []"
  "column_size (settings (fst (createDefaultColumn rnd c'))) = Some 100"
  by (simp_all add: createDefaultSection_def createDefaultColumn_def case_prod_beta)

text \<open>
  The raw walk. The content list is never empty; when the scan holds no pre-built
  sections, every section of the content contains at least one column and only columns
  (the step "Ensure all sections have columns"), and when the top-level walk yields
  nothing the content is one default section with one default column of size 100.
\<close>

lemma raw_walk_sections_have_columns:
  "fst (buildElementorFromVisual rnd sd c) \<noteq> []
   \<and> (no_prebuilt sd \<longrightarrow> list_all with_columns (fst (buildElementorFromVisual rnd sd c)))
   \<and> (no_prebuilt sd \<and> fst (walk_sections rnd sd c) = [] \<longrightarrow>
        (\<exists>s col. fst (buildElementorFromVisual rnd sd c) = [s]
                 \<and> elType s = ''section'' \<and> elements s = [col]
                 \<and> elType col = ''column'' \<and> column_size (settings col) = Some 100
                 \<and> elements col = []))"
proof -
  define sections2 where
    "sections2 = (if length (fst (walk_sections rnd sd c)) = 0
                  then [fst (createDefaultSection rnd (snd (walk_sections rnd sd c)))]
                  else fst (walk_sections rnd sd c))"
  define c2 where
    "c2 = (if length (fst (walk_sections rnd sd c)) = 0
           then snd (createDefaultSection rnd (snd (walk_sections rnd sd c)))
           else snd (walk_sections rnd sd c))"
  have raw: "no_prebuilt sd \<Longrightarrow>
               fst (buildElementorFromVisual rnd sd c) = fst (ensure_columns rnd sections2 c2)"
    by (auto simp add: no_prebuilt_def buildElementorFromVisual_def case_prod_beta sections2_def
        c2_def)
  have ne2: "sections2 \<noteq> []" by (simp add: sections2_def)
  have co2: "list_all columns_only sections2"
    using walk_columns_only [of rnd sd c]
    by (simp add: sections2_def columns_only_def default_section_fields createDefaultColumn_type)
  have a: "fst (buildElementorFromVisual rnd sd c) \<noteq> []"
  proof (cases "no_prebuilt sd")
    case True
    then show ?thesis
      using raw ne2 ensure_columns_length [of rnd sections2 c2] by (metis length_0_conv)
  next
    case False
    then obtain s rest where "findElementorStructure sd = Some (s # rest)"
      by (cases "findElementorStructure sd"; cases "the (findElementorStructure sd)")
         (auto simp add: no_prebuilt_def)
    then show ?thesis by (simp add: buildElementorFromVisual_def)
  qed
  have b: "no_prebuilt sd \<longrightarrow> list_all with_columns (fst (buildElementorFromVisual rnd sd c))"
    using raw ensure_columns_with_columns [OF co2, of rnd c2] by simp
  have d: "no_prebuilt sd \<and> fst (walk_sections rnd sd c) = [] \<longrightarrow>
        (\<exists>s col. fst (buildElementorFromVisual rnd sd c) = [s]
                 \<and> elType s = ''section'' \<and> elements s = [col]
                 \<and> elType col = ''column'' \<and> column_size (settings col) = Some 100
                 \<and> elements col = [])"
  proof
    assume h: "no_prebuilt sd \<and> fst (walk_sections rnd sd c) = []"
    then have "sections2 = [fst (createDefaultSection rnd (snd (walk_sections rnd sd c)))]"
      by (simp add: sections2_def)
    then have "fst (buildElementorFromVisual rnd sd c)
                 = [fst (createDefaultSection rnd (snd (walk_sections rnd sd c)))]"
      using raw h by (simp add: case_prod_beta default_section_fields)
    then show "\<exists>s col. fst (buildElementorFromVisual rnd sd c) = [s]
                 \<and> elType s = ''section'' \<and> elements s = [col]
                 \<and> elType col = ''column'' \<and> column_size (settings col) = Some 100
                 \<and> elements col = []"
      by (simp add: default_section_fields createDefaultColumn_type)
  qed
  show ?thesis using a b d by blast
qed


lemma constant_id:
  "generateElementId constant_random c = (''aaaaaaaa'', c\<lparr>draws := draws c + 8\<rparr>)"
  by (simp add: generateElementId_def constant_random_def charAt_def chars_def upt_eight)

lemma blank_page_walk:
  "fst (buildElementorFromVisual constant_random blank_scan_older new_converter)
     = [Node (Some ''aaaaaaaa'') ''section'' []
          \<lparr>column_size = None, element_id = None, html = None,
           content_fields = [(''content_width'', ''boxed''), (''structure'', ''10'')]\<rparr>
          [Node (Some ''aaaaaaaa'') ''column'' []
             \<lparr>column_size = Some 100, element_id = None, html = None, content_fields = []\<rparr> []]]"
  by (simp add: buildElementorFromVisual_def findElementorStructure_def find_in_structure_def
      blank_scan_older_def walk_sections_def actualStructure_def blank_page_def
      determineElementorType_def createSection_def createDefaultColumn_def set_elements_def
      new_converter_def constant_id Let_def opt_list_def)

text \<open>
  C2, the converter at the failing input: for the scan of a page whose body holds one
  empty \<open>header\<close>, the content is the pre-built section of the header as the scraper wrote
  it, and that section contains no column; the raw walk over the same page gives the
  section a default column. For a scan in which nothing was captured the content is the
  default section, whose default column contains no widget.
\<close>

theorem prebuilt_section_without_column:
  "fst (buildElementorFromVisual constant_random blank_scan new_converter)
     = [Node None ''section'' []
          \<lparr>column_size = None, element_id = None, html = None, content_fields = []\<rparr> []]
   \<and> map (\<lambda>n. map elType (elements n))
         (fst (buildElementorFromVisual constant_random blank_scan_older new_converter))
     = [[''column'']]
   \<and> fst (buildElementorFromVisual constant_random empty_scan new_converter)
     = [Node (Some ''aaaaaaaa'') ''section'' []
          \<lparr>column_size = None, element_id = None, html = None,
           content_fields = [(''content_width'', ''boxed'')]\<rparr>
          [Node (Some ''aaaaaaaa'') ''column'' []
             \<lparr>column_size = Some 100, element_id = None, html = None, content_fields = []\<rparr> []]]"
proof -
  have a: "fst (buildElementorFromVisual constant_random blank_scan new_converter)
     = [Node None ''section'' []
          \<lparr>column_size = None, element_id = None, html = None, content_fields = []\<rparr> []]"
    by (rule blank_content)
  have b: "map (\<lambda>n. map elType (elements n))
         (fst (buildElementorFromVisual constant_random blank_scan_older new_converter))
     = [[''column'']]"
    by (simp add: blank_page_walk)
  have c: "fst (buildElementorFromVisual constant_random empty_scan new_converter)
     = [Node (Some ''aaaaaaaa'') ''section'' []
          \<lparr>column_size = None, element_id = None, html = None,
           content_fields = [(''content_width'', ''boxed'')]\<rparr>
          [Node (Some ''aaaaaaaa'') ''column'' []
             \<lparr>column_size = Some 100, element_id = None, html = None, content_fields = []\<rparr> []]]"
    by (simp add: buildElementorFromVisual_def findElementorStructure_def empty_scan_def
        walk_sections_def actualStructure_def createDefaultSection_def createDefaultColumn_def
        new_converter_def constant_id)
  show ?thesis using a b c by blast
qed

subsection \<open>Identifiers of a built document\<close>

lemma all_ids_append: "all_ids_valid (xs @ ys) = (all_ids_valid xs \<and> all_ids_valid ys)"
  by (induction xs) auto

lemma ids_set_elements:
  "ids_valid (set_elements n els) = (ids_valid (set_elements n []) \<and> all_ids_valid els)"
  by (cases n) (auto simp add: set_elements_def)

lemma set_elements_self: "elements n = [] \<Longrightarrow> set_elements n [] = n"
  by (cases n) (simp add: set_elements_def)

lemma ids_set_column_size:
  "elType col \<noteq> ''widget'' \<Longrightarrow> ids_valid (set_column_size col w) = ids_valid col"
  by (cases col) (simp add: set_column_size_def)

lemma generated_id_valid_all:
  "\<forall>k. 0 \<le> rnd k \<and> rnd k < 1 \<Longrightarrow> valid_id (fst (generateElementId rnd c))"
  using generated_id_valid by blast

lemma ids_createColumn:
  assumes "\<forall>k. 0 \<le> rnd k \<and> rnd k < 1"
  shows "ids_valid (fst (createColumn rnd c))" "elements (fst (createColumn rnd c)) = []"
  using generated_id_valid_all [OF assms, where c = c] by (simp_all add: createColumn_def case_prod_beta)

lemma ids_createDefaultColumn:
  assumes "\<forall>k. 0 \<le> rnd k \<and> rnd k < 1"
  shows "ids_valid (fst (createDefaultColumn rnd c))"
  using generated_id_valid_all [OF assms, where c = c] by (simp add: createDefaultColumn_def case_prod_beta)

lemma ids_createSection:
  assumes "\<forall>k. 0 \<le> rnd k \<and> rnd k < 1"
  shows "ids_valid (fst (createSection rnd el c))" "elements (fst (createSection rnd el c)) = []"
  using generated_id_valid_all [OF assms, where c = c] by (simp_all add: createSection_def case_prod_beta)

lemma ids_createDefaultSection:
  assumes "\<forall>k. 0 \<le> rnd k \<and> rnd k < 1"
  shows "ids_valid (fst (createDefaultSection rnd c))"
  using generated_id_valid_all [OF assms, where c = c]
    generated_id_valid_all [OF assms, where c = "snd (generateElementId rnd c)"]
  by (simp add: createDefaultSection_def createDefaultColumn_def case_prod_beta)

lemma ids_createWidget:
  assumes "\<forall>k. 0 \<le> rnd k \<and> rnd k < 1"
  shows "all_ids_valid (opt_list (fst (createWidget rnd el c)))"
  using generated_id_valid_all [OF assms, where c = c]
    generated_id_valid_all [OF assms, where c = "snd (generateElementId rnd c)"]
  by (auto simp add: createWidget_def widget_def opt_list_def case_prod_beta split: option.splits)

lemma ids_create_widgets:
  assumes "\<forall>k. 0 \<le> rnd k \<and> rnd k < 1"
  shows "all_ids_valid (fst (create_widgets rnd es c))"
  by (induction es arbitrary: c)
     (simp_all add: case_prod_beta all_ids_append ids_createWidget [OF assms])

lemma ids_make_column:
  assumes "\<forall>k. 0 \<le> rnd k \<and> rnd k < 1"
  shows "all_ids_valid (fst (make_column rnd cur c))"
  using ids_createColumn [OF assms] ids_create_widgets [OF assms]
  by (simp add: make_column_def case_prod_beta ids_set_elements set_elements_self)

lemma ids_column_steps:
  assumes "\<forall>k. 0 \<le> rnd k \<and> rnd k < 1"
  shows "all_ids_valid columns
         \<Longrightarrow> all_ids_valid (fst (foldl (column_step rnd la) (columns, cur, c) chs))"
proof (induction chs arbitrary: columns cur c)
  case Nil
  then show ?case by simp
next
  case (Cons child chs)
  show ?case
  proof (cases "shouldStartNewColumn child cur la \<and> length cur > 0")
    case True
    have "all_ids_valid (columns @ fst (make_column rnd cur c))"
      using Cons.prems ids_make_column [OF assms] by (simp add: all_ids_append)
    then show ?thesis
      using True Cons.IH [of "columns @ fst (make_column rnd cur c)" "[child]"
          "snd (make_column rnd cur c)"]
      by (simp add: column_step_def case_prod_beta)
  next
    case False
    then show ?thesis
      using Cons.IH [OF Cons.prems, of "cur @ [child]" c]
      by (auto simp add: column_step_def)
  qed
qed

lemma ids_zip_sizes:
  "all_ids_valid cols \<Longrightarrow> list_all (\<lambda>m. elType m = ''column'') cols
   \<Longrightarrow> all_ids_valid (map (\<lambda>(col, w). set_column_size col w) (zip cols ws))"
proof (induction cols arbitrary: ws)
  case Nil
  then show ?case by simp
next
  case (Cons col cols)
  then show ?case by (cases ws) (simp_all add: ids_set_column_size)
qed

lemma ids_widths:
  assumes "all_ids_valid cols" and "list_all (\<lambda>m. elType m = ''column'') cols"
  shows "all_ids_valid (calculateIntelligentColumnWidths cols)"
proof (cases cols)
  case Nil
  then show ?thesis by (simp add: calculateIntelligentColumnWidths_def)
next
  case (Cons col rest)
  then show ?thesis
    using assms ids_zip_sizes [OF assms]
    by (simp add: calculateIntelligentColumnWidths_def Let_def ids_set_column_size)
qed

lemma ids_createColumnsFromChildren:
  assumes "\<forall>k. 0 \<le> rnd k \<and> rnd k < 1"
  shows "all_ids_valid (fst (createColumnsFromChildren rnd chs c))"
proof (cases "length chs = 0")
  case True
  then show ?thesis
    by (simp add: createColumnsFromChildren_def case_prod_beta ids_createDefaultColumn [OF assms])
next
  case False
  define la where "la = analyzeChildrenLayout chs"
  define st where "st = foldl (column_step rnd la) ([], [], c) chs"
  define columns2 where
    "columns2 = (if length (fst (snd st)) > 0
                 then fst st @ fst (make_column rnd (fst (snd st)) (snd (snd st)))
                 else fst st)"
  have s: "all_ids_valid (fst st)"
    using ids_column_steps [OF assms, where columns = "[]" and la = la and cur = "[]" and c = c and chs = chs]
    by (simp add: st_def)
  have t: "list_all (\<lambda>m. elType m = ''column'') (fst st)"
    using column_steps_columns [of "[]" rnd la "[]" c chs] by (simp add: st_def)
  have c2: "all_ids_valid columns2"
    using s ids_make_column [OF assms] by (simp add: columns2_def all_ids_append)
  have t2: "list_all (\<lambda>m. elType m = ''column'') columns2"
    using t make_column_columns by (simp add: columns2_def)
  have r: "fst (createColumnsFromChildren rnd chs c)
             = (if length columns2 = 0 then [fst (createDefaultColumn rnd (if length (fst (snd st)) > 0
                                         then snd (make_column rnd (fst (snd st)) (snd (snd st)))
                                         else snd (snd st)))]
                else calculateIntelligentColumnWidths columns2)"
    using False
    by (simp add: createColumnsFromChildren_def Let_def case_prod_beta la_def st_def columns2_def)
  show ?thesis
    using r ids_widths [OF c2 t2] ids_createDefaultColumn [OF assms] by simp
qed

lemma ids_process:
  "(\<forall>k. 0 \<le> rnd k \<and> rnd k < 1)
     \<longrightarrow> all_ids_valid (opt_list (fst (processElement rnd pt depth el c)))"
  "(\<forall>k. 0 \<le> rnd k \<and> rnd k < 1)
     \<longrightarrow> all_ids_valid (fst (processChildren rnd pt depth es c))"
proof (induction rnd pt depth el c and rnd pt depth es c rule: processElement_processChildren.induct)
  case (1 rnd parentType depth cs tn cn tc ih oh ats lay ch c)
  show ?case
  proof
    assume r: "\<forall>k. 0 \<le> rnd k \<and> rnd k < 1"
    define el where "el = Element cs tn cn tc ih oh ats lay ch"
    show "all_ids_valid (opt_list (fst (processElement rnd parentType depth
            (Element cs tn cn tc ih oh ats lay ch) c)))"
    proof (cases "depth > 30")
      case True
      then show ?thesis by (simp add: opt_list_def)
    next
      case False
      show ?thesis
      proof (cases "determineElementorType el parentType")
        case TSection
        then show ?thesis
          using False
          by (simp add: el_def opt_list_def case_prod_beta ids_set_elements set_elements_self
              ids_createSection [OF r] ids_createColumnsFromChildren [OF r])
      next
        case TColumn
        have "0 < length ch \<Longrightarrow>
                all_ids_valid (fst (processChildren rnd PColumn (depth + 1) ch (snd (createColumn rnd c))))"
          using 1 [of "fst (createColumn rnd c)" "snd (createColumn rnd c)"] False TColumn r
          by (simp add: el_def)
        then show ?thesis
          using False TColumn
          by (simp add: el_def opt_list_def case_prod_beta ids_set_elements set_elements_self
              ids_createColumn [OF r])
      next
        case TWidget
        then show ?thesis
          using False ids_createWidget [OF r, where el = el and c = c] by (simp add: el_def)
      qed
    qed
  qed
next
  case (2 rnd parentType depth c)
  then show ?case by simp
next
  case (3 rnd parentType depth e es c)
  show ?case
    using 3(1) 3(2) [of "fst (processElement rnd parentType depth e c)"
        "snd (processElement rnd parentType depth e c)"]
    by (simp add: case_prod_beta all_ids_append)
qed

lemma ids_ensure_columns:
  assumes "\<forall>k. 0 \<le> rnd k \<and> rnd k < 1"
  shows "all_ids_valid xs \<Longrightarrow> all_ids_valid (fst (ensure_columns rnd xs c))"
proof (induction xs arbitrary: c)
  case Nil
  then show ?case by simp
next
  case (Cons n xs)
  then show ?case
    using ids_createDefaultColumn [OF assms, where c = c]
    by (auto simp add: case_prod_beta ids_set_elements set_elements_self)
qed

lemma ids_walk:
  assumes "\<forall>k. 0 \<le> rnd k \<and> rnd k < 1"
  shows "all_ids_valid (fst (walk_sections rnd sd c))"
  using ids_process [of rnd] assms
  by (auto simp add: walk_sections_def case_prod_beta split: option.splits)

lemma ids_build:
  assumes "\<forall>k. 0 \<le> rnd k \<and> rnd k < 1" and "no_prebuilt sd"
  shows "all_ids_valid (fst (buildElementorFromVisual rnd sd c))"
proof -
  define sections2 where
    "sections2 = (if length (fst (walk_sections rnd sd c)) = 0
                  then [fst (createDefaultSection rnd (snd (walk_sections rnd sd c)))]
                  else fst (walk_sections rnd sd c))"
  define c2 where
    "c2 = (if length (fst (walk_sections rnd sd c)) = 0
           then snd (createDefaultSection rnd (snd (walk_sections rnd sd c)))
           else snd (walk_sections rnd sd c))"
  have raw: "fst (buildElementorFromVisual rnd sd c) = fst (ensure_columns rnd sections2 c2)"
    using assms(2)
    by (auto simp add: no_prebuilt_def buildElementorFromVisual_def case_prod_beta sections2_def
        c2_def)
  have "all_ids_valid sections2"
    using ids_walk [OF assms(1), where sd = sd and c = c] ids_createDefaultSection [OF assms(1)]
    by (simp add: sections2_def)
  then show ?thesis using raw ids_ensure_columns [OF assms(1)] by simp
qed

text \<open>
  The raw walk. When \<open>Math.random\<close> returns values in \<open>[0, 1)\<close>, every identifier that
  \<open>generateElementId\<close> returns is a string of eight characters, each a lower-case letter
  or a digit; and in every document that is built from a scan without pre-built sections,
  every section, column and widget carries such an \<open>id\<close> and every widget such an
  \<open>_element_id\<close>.
\<close>

lemma raw_walk_ids_valid:
  assumes "\<forall>k. 0 \<le> rnd k \<and> rnd k < 1"
  shows "valid_id (fst (generateElementId rnd c))
         \<and> (no_prebuilt sd \<longrightarrow> all_ids_valid (fst (buildElementorFromVisual rnd sd c)))"
  using generated_id_valid_all [OF assms] ids_build [OF assms] by blast


text \<open>
  C10, the converter at the failing input: for the scan of a page whose body holds one
  empty \<open>header\<close>, the one node of the content is the pre-built section as the scraper
  wrote it, and it carries no \<open>id\<close>; the raw walk over the same page gives the section
  and its column an \<open>id\<close> each.
\<close>

theorem prebuilt_nodes_without_id:
  "map node_id (fst (buildElementorFromVisual constant_random blank_scan new_converter)) = [None]
   \<and> map (\<lambda>n. (node_id n, map node_id (elements n)))
         (fst (buildElementorFromVisual constant_random blank_scan_older new_converter))
     = [(Some ''aaaaaaaa'', [Some ''aaaaaaaa''])]"
proof -
  have a: "map node_id (fst (buildElementorFromVisual constant_random blank_scan new_converter)) = [None]"
    by (simp add: blank_content)
  have b: "map (\<lambda>n. (node_id n, map node_id (elements n)))
         (fst (buildElementorFromVisual constant_random blank_scan_older new_converter))
     = [(Some ''aaaaaaaa'', [Some ''aaaaaaaa''])]"
    by (simp add: blank_page_walk)
  show ?thesis using a b by blast
qed

end
